theory Spec2Isabelle
  imports Main
begin

chapter \<open>The TypeScript completion provider of the Svelte language server\<close>

text \<open>
  A shallow embedding of \<open>CompletionsProviderImpl\<close>
  (\<open>packages/language-server/src/plugins/typescript/features/CompletionProvider.ts\<close>):
  \<open>getCompletions\<close> with the private methods it calls, and
  \<open>codeActionChangeToTextEdit\<close> of the resolution pipeline.

  Conventions. A JavaScript number that holds a line, a column, an offset or a length is
  an \<open>int\<close>. A string is a list of characters, one \<open>char\<close> for one code unit
  (code units above 255 are outside the model). A
  value that may be \<open>undefined\<close> or \<open>null\<close> is an \<open>option\<close>. A method that
  changes its argument or the provider returns the changed value. A request is taken
  as one step: what other requests do while one waits for the resolver is not modelled.
\<close>

section \<open>JavaScript string primitives used by the completion provider\<close>

text \<open>
  \<open>String.prototype.substring\<close> clamps both indices into \<open>[0, length]\<close> and swaps
  them when the first exceeds the second.
\<close>

definition clampIndex :: "string \<Rightarrow> int \<Rightarrow> nat" where
  "clampIndex s i = (if i < 0 then 0 else min (nat i) (length s))"

definition substring :: "string \<Rightarrow> int \<Rightarrow> int \<Rightarrow> string" where
  "substring s a b =
     (let a' = clampIndex s a; b' = clampIndex s b;
          lo = min a' b'; hi = max a' b'
      in take (hi - lo) (drop lo s))"

definition substringFrom :: "string \<Rightarrow> int \<Rightarrow> string" where
  "substringFrom s a = drop (clampIndex s a) s"

definition startsWith :: "string \<Rightarrow> string \<Rightarrow> bool" where
  "startsWith s p = (take (length p) s = p)"

definition endsWith :: "string \<Rightarrow> string \<Rightarrow> bool" where
  "endsWith s p = (length p \<le> length s \<and> drop (length s - length p) s = p)"

section \<open>Editor protocol data\<close>

record Position =
  line :: int
  character :: int

record Range =
  r_start :: Position
  r_end :: Position

record TextEdit =
  editRange :: Range
  newText :: string

record InsertReplaceEdit =
  ire_newText :: string
  ire_insert :: Range
  ire_replace :: Range

text \<open>The \<open>textEdit\<close> field of a completion item is \<open>TextEdit | InsertReplaceEdit\<close>;
  \<open>TextEdit.is\<close> tells the two apart.\<close>

datatype Edit = IsTextEdit TextEdit | IsInsertReplaceEdit InsertReplaceEdit

definition TextEdit_replace :: "Range \<Rightarrow> string \<Rightarrow> TextEdit" where
  "TextEdit_replace r t = \<lparr>editRange = r, newText = t\<rparr>"

datatype Documentation = PlainDoc string | Markdown string

text \<open>A text span of the type-checking engine: offsets in the generated document.\<close>

record TextSpan =
  span_start :: int
  span_length :: int

text \<open>The three kinds the provider tests for, and any other kind by its string.\<close>

datatype ScriptElementKind =
  memberVariableElement | scriptElement | jsxAttribute | otherElementKind string

text \<open>The fields of the engine's completion entry that the provider reads.\<close>

record CompletionEntry =
  ce_name :: string
  ce_insertText :: "string option"
  ce_kind :: ScriptElementKind
  kindModifiers :: "string option"
  source :: "string option"
  replacementSpan :: "TextSpan option"
  ce_sortText :: string
  isRecommended :: "bool option"

text \<open>The resolution payload \<open>{...comp, uri, position}\<close> carried in \<open>data\<close>.\<close>

record CompletionEntryWithIdentifier =
  data_entry :: CompletionEntry
  data_uri :: string
  data_position :: Position

record CompletionItem =
  label :: string
  insertText :: "string option"
  kind :: "nat option"
  commitCharacters :: "string list option"
  sortText :: "string option"
  preselect :: "bool option"
  detail :: "string option"
  documentation :: "Documentation option"
  textEdit :: "Edit option"
  additionalTextEdits :: "TextEdit list option"
  data :: "CompletionEntryWithIdentifier option"

record CompletionList =
  items :: "CompletionItem list"
  isIncomplete :: bool

definition CompletionList_create :: "CompletionItem list \<Rightarrow> bool \<Rightarrow> CompletionList" where
  "CompletionList_create its incomplete = \<lparr>items = its, isIncomplete = incomplete\<rparr>"

section \<open>Text-edit range fixer\<close>

text \<open>
  \<open>TextEdit.is\<close> of the protocol library (\<open>vscode-languageserver-types\<close>, not
  part of the provider's source): the value has a string \<open>newText\<close> and a \<open>range\<close>
  that passes \<open>Range.is\<close>, that is, the line and the column of its start and of its end
  each pass \<open>uinteger.is\<close>: a number from 0 to 2147483647. An insert-replace edit has
  no \<open>range\<close> and fails the test; so does a text edit with the range of a position that
  could not be mapped, line -1 and column -1.
\<close>

definition uinteger_is :: "int \<Rightarrow> bool" where
  "uinteger_is n = (0 \<le> n \<and> n \<le> 2147483647)"

definition Position_is :: "Position \<Rightarrow> bool" where
  "Position_is p = (uinteger_is (line p) \<and> uinteger_is (character p))"

definition Range_is :: "Range \<Rightarrow> bool" where
  "Range_is r = (Position_is (r_start r) \<and> Position_is (r_end r))"

definition TextEdit_is :: "Edit \<Rightarrow> bool" where
  "TextEdit_is e =
     (case e of
        IsTextEdit te \<Rightarrow> Range_is (editRange te)
      | IsInsertReplaceEdit _ \<Rightarrow> False)"

text \<open>
  \<open>fixTextEditRange\<close> mutates the item's text edit in place and returns the item; the
  model returns the updated item. The first disjunct of the guard compares
  \<open>wordRangePosition.line\<close> with itself, as the source does.
\<close>

definition fixTextEditRange :: "Position \<Rightarrow> CompletionItem \<Rightarrow> CompletionItem" where
  "fixTextEditRange wordRangePosition completionItem =
     (case textEdit completionItem of
        None \<Rightarrow> completionItem
      | Some e \<Rightarrow>
        if \<not> TextEdit_is e then completionItem
        else
        (case e of
          IsInsertReplaceEdit _ \<Rightarrow> completionItem
        | IsTextEdit te \<Rightarrow>
          (let text = newText te;
               start = r_start (editRange te);
               wordRangeStartCharacter = character wordRangePosition
           in if line wordRangePosition \<noteq> line wordRangePosition
                 \<or> character start > character wordRangePosition
              then completionItem
              else completionItem
                \<lparr> textEdit := Some (IsTextEdit
                     \<lparr> editRange = (editRange te)
                         \<lparr> r_start := \<lparr>line = line start, character = wordRangeStartCharacter\<rparr> \<rparr>,
                       newText = substringFrom text (wordRangeStartCharacter - character start) \<rparr>),
                  additionalTextEdits := Some
                     [TextEdit_replace
                        \<lparr> r_start = start,
                          r_end = \<lparr>line = line start, character = wordRangeStartCharacter\<rparr> \<rparr>
                        (substring text 0 (wordRangeStartCharacter - character start))] \<rparr>)))"

section \<open>Documents, snapshots and the collaborators of the provider\<close>

text \<open>
  The provider works on objects it does not own: the document model, the generated
  snapshot, the language service, the component metadata and a number of imported helper
  functions. None of them is part of the provider's source, so each is a parameter: a
  record field holding the answer the collaborator gives. Every theorem below holds for
  all such answers.
\<close>

record TagInformation =
  tag_start :: int
  tag_end :: int

text \<open>\<open>document.html\<close>, seen through the two queries made on it; each field is the
  truthiness of the node the query returns at an offset.\<close>

record HTMLDocument =
  getNodeIfIsInStartTag :: "int \<Rightarrow> bool"
  getNodeIfIsInHTMLStartTag :: "int \<Rightarrow> bool"

record Document =
  getText :: string
  getFilePath :: "string option"
  styleInfo :: "TagInformation option"
  scriptInfo :: "TagInformation option"
  moduleScriptInfo :: "TagInformation option"
  offsetAt :: "Position \<Rightarrow> int"
  positionAt :: "int \<Rightarrow> Position"
  html :: HTMLDocument

record SvelteNode =
  node_type :: string
  parent_type :: "string option"

record Snapshot =
  snap_filePath :: string
  isInGenerated :: "Position \<Rightarrow> bool"
  snap_offsetAt :: "Position \<Rightarrow> int"
  snap_positionAt :: "int \<Rightarrow> Position"
  getGeneratedPosition :: "Position \<Rightarrow> Position"
  svelteNodeAt :: "int \<Rightarrow> SvelteNode option"
  parserError :: "string option"
  snap_scriptInfo :: "TagInformation option"
  snap_moduleScriptInfo :: "TagInformation option"
  getFullText :: string

record ComponentPartInfo =
  info_name :: string
  info_type :: string
  info_doc :: "string option"

record ComponentInfoProvider =
  getEvents :: "ComponentPartInfo list"
  getSlotLets :: "ComponentPartInfo list"
  getProps :: "ComponentPartInfo list"
  getProp :: "string \<Rightarrow> CompletionEntry list"

record AttributeContext =
  attributeName :: string
  inValue :: bool

record WordRange =
  w_start :: int
  w_end :: int

record UserPreferences =
  importModuleSpecifierEnding :: "string option"

datatype SourceFile = SourceFile string

record JsxInitializer =
  isStringLiteral :: bool
  getStart :: int
  getWidth :: int

record JsxAttribute =
  attr_name :: string
  initializer :: "JsxInitializer option"

text \<open>
  The language service: \<open>getCompletionsAtPosition\<close> takes the file path, the generated
  offset, the user preferences and the trigger character and gives the \<open>entries\<close> of
  its answer (\<open>None\<close> for no answer); \<open>getSourceFile\<close> stands for
  \<open>lang.getProgram()?.getSourceFile(path)\<close>.
\<close>

record LanguageService =
  getCompletionsAtPosition ::
    "string \<Rightarrow> int \<Rightarrow> UserPreferences \<Rightarrow> string option \<Rightarrow> CompletionEntry list option"
  getSourceFile :: "string \<Rightarrow> SourceFile option"

record Config =
  defaultScriptLanguage :: string
  useNewTransformation :: bool

text \<open>
  \<open>scriptImportRegex\<close> is an alternation of two patterns with one capture group each, so a
  match defines exactly one of \<open>match[1]\<close> (the text between the braces of
  \<open>import {...} from\<close>) and \<open>match[2]\<close> (the name of \<open>import name from\<close>).
\<close>

datatype ImportMatch = NamedImports string | DefaultImport string

datatype CompletionTriggerKind = Invoked | TriggerCharacter | TriggerForIncompleteCompletions

record CompletionContext =
  ctx_triggerKind :: CompletionTriggerKind
  ctx_triggerCharacter :: "string option"

record Collaborators =
  getLSAndTSDoc :: "Document \<Rightarrow> LanguageService \<times> Snapshot \<times> UserPreferences"
  isInTag :: "Position \<Rightarrow> TagInformation option \<Rightarrow> bool"
  isInScript :: "Position \<Rightarrow> TagInformation option \<Rightarrow> TagInformation option \<Rightarrow> bool"
  getWordRangeAt :: "string \<Rightarrow> int \<Rightarrow> WordRange"
  toRange :: "string \<Rightarrow> int \<Rightarrow> int \<Rightarrow> Range"
  convertRange :: "(int \<Rightarrow> Position) \<Rightarrow> TextSpan \<Rightarrow> Range"
  mapRangeToOriginal :: "Snapshot \<Rightarrow> Range \<Rightarrow> Range"
  mapCompletionItemToOriginal :: "Snapshot \<Rightarrow> CompletionItem \<Rightarrow> CompletionItem"
  getComponentAtPosition ::
    "LanguageService \<Rightarrow> Document \<Rightarrow> Snapshot \<Rightarrow> Position \<Rightarrow> ComponentInfoProvider option"
  getAttributeContextAtPosition :: "Document \<Rightarrow> Position \<Rightarrow> AttributeContext option"
  getJsDocTemplateCompletion ::
    "Snapshot \<Rightarrow> LanguageService \<Rightarrow> string \<Rightarrow> int \<Rightarrow> CompletionList option"
  findContainingNode :: "SourceFile \<Rightarrow> TextSpan \<Rightarrow> JsxAttribute option"
  isPartOfImportStatement :: "string \<Rightarrow> Position \<Rightarrow> bool"
  getRegExpMatches :: "string \<Rightarrow> ImportMatch list"
  regExpMatch :: "string \<Rightarrow> string \<Rightarrow> bool"
  changeSvelteComponentName :: "string \<Rightarrow> string"
  pathToUrl :: "string \<Rightarrow> string"
  scriptElementKindToCompletionItemKind :: "ScriptElementKind \<Rightarrow> nat"
  getCommitCharactersForScriptElement :: "ScriptElementKind \<Rightarrow> string list option"
  newLine :: string

text \<open>
  \<open>getRegExpMatches\<close> is applied to \<open>scriptImportRegex\<close> only, so the field takes the text
  alone. \<open>regExpMatch pattern text\<close> is the truthiness of
  \<open>text.match(new RegExp(pattern))\<close>. \<open>newLine\<close> is \<open>ts.sys.newLine\<close>.
\<close>

section \<open>The provider's state\<close>

record LastCompletion =
  lc_key :: string
  lc_position :: Position
  lc_completionList :: "CompletionList option"

text \<open>
  \<open>lastCompletion\<close> is the provider's only field that changes. \<open>engineQueries\<close> records
  the calls of \<open>lang.getCompletionsAtPosition\<close> made so far (file path, offset, trigger
  character), so that making no engine query is a statement about the state.
\<close>

record ProviderState =
  lastCompletion :: "LastCompletion option"
  engineQueries :: "(string \<times> int \<times> string option) list"

section \<open>More string primitives\<close>


text \<open>\<open>s.split(',')\<close>: the pieces between the commas; one empty piece for the empty string.\<close>

fun splitComma :: "string \<Rightarrow> string list" where
  "splitComma [] = [[]]"
| "splitComma (c # cs) =
     (if c = CHR '','' then [] # splitComma cs
      else (case splitComma cs of
              [] \<Rightarrow> [[c]]
            | piece # pieces \<Rightarrow> (c # piece) # pieces))"

text \<open>White space of \<open>String.prototype.trim\<close>, among the characters a \<open>char\<close> can hold.\<close>

definition isWhiteSpace :: "char \<Rightarrow> bool" where
  "isWhiteSpace c = (c \<in> set [CHR 0x09, CHR 0x0A, CHR 0x0B, CHR 0x0C, CHR 0x0D, CHR 0x20, CHR 0xA0])"

definition trim :: "string \<Rightarrow> string" where
  "trim s = rev (dropWhile isWhiteSpace (rev (dropWhile isWhiteSpace s)))"

section \<open>The completion provider\<close>

definition validTriggerCharacters :: "string list" where
  "validTriggerCharacters =
     [''.'', [CHR 0x22], [CHR 0x27], [CHR 0x60], ''/'', ''@'', ''<'', ''#'']"

definition isValidTriggerCharacter :: "string option \<Rightarrow> bool" where
  "isValidTriggerCharacter ch =
     (case ch of None \<Rightarrow> False | Some c \<Rightarrow> c \<in> set validTriggerCharacters)"

definition canReuseLastCompletion ::
  "Collaborators \<Rightarrow> LastCompletion option \<Rightarrow> CompletionTriggerKind option \<Rightarrow> string option
     \<Rightarrow> Document \<Rightarrow> Position \<Rightarrow> bool" where
  "canReuseLastCompletion lib lastCompl triggerKind triggerCharacter document position =
     (case lastCompl of
        None \<Rightarrow> False
      | Some lc \<Rightarrow>
          Some (lc_key lc) = getFilePath document
          \<and> line (lc_position lc) = line position
          \<and> ((\<bar>character (lc_position lc) - character position\<bar> < 2
                \<and> (triggerKind = Some TriggerForIncompleteCompletions
                    \<or> (triggerCharacter = Some ''.''
                        \<and> isPartOfImportStatement lib (getText document) position)))
              \<or> (\<bar>character (lc_position lc) - character position\<bar> < 4
                  \<and> triggerCharacter = Some '':''
                  \<and> getNodeIfIsInStartTag (html document) (offsetAt document position))))"

definition getExistingImports :: "Collaborators \<Rightarrow> Document \<Rightarrow> string set" where
  "getExistingImports lib document =
     (let rawImports =
            map (\<lambda>m. splitComma (case m of NamedImports g \<Rightarrow> g | DefaultImport g \<Rightarrow> g))
              (getRegExpMatches lib (getText document));
          tidiedImports = map trim (concat rawImports)
      in set tidiedImports)"

definition componentInfoToCompletionEntry ::
  "Collaborators \<Rightarrow> ComponentPartInfo \<Rightarrow> string \<Rightarrow> nat option \<Rightarrow> Document \<Rightarrow> WordRange
     \<Rightarrow> CompletionItem" where
  "componentInfoToCompletionEntry lib info prefix itemKind doc wordRange =
     (let start = w_start wordRange; endOffset = w_end wordRange;
          prefixed = prefix @ info_name info
      in \<lparr> label = prefixed,
           insertText = None,
           kind = itemKind,
           commitCharacters = None,
           sortText = Some ''-1'',
           preselect = None,
           detail = Some (info_name info @ '': '' @ info_type info),
           documentation =
             (case info_doc info of
                None \<Rightarrow> None
              | Some d \<Rightarrow> if d = [] then Some (PlainDoc []) else Some (Markdown d)),
           textEdit =
             (if start \<noteq> endOffset
              then Some (IsTextEdit (TextEdit_replace (toRange lib (getText doc) start endOffset) prefixed))
              else None),
           additionalTextEdits = None,
           data = None \<rparr>)"

definition getEventAndSlotLetCompletions ::
  "Collaborators \<Rightarrow> ComponentInfoProvider option \<Rightarrow> Document \<Rightarrow> AttributeContext option
     \<Rightarrow> WordRange \<Rightarrow> CompletionItem list" where
  "getEventAndSlotLetCompletions lib componentInfo document attributeContext wordRange =
     (case componentInfo of
        None \<Rightarrow> []
      | Some ci \<Rightarrow>
          if (case attributeContext of None \<Rightarrow> False | Some ac \<Rightarrow> inValue ac) then []
          else map (\<lambda>event. componentInfoToCompletionEntry lib event ''on:'' None document wordRange)
                 (getEvents ci)
               @ map (\<lambda>slot. componentInfoToCompletionEntry lib slot ''let:'' None document wordRange)
                   (getSlotLets ci))"

definition isSvelteComponentImport :: "string \<Rightarrow> bool" where
  "isSvelteComponentImport className = endsWith className ''__SvelteComponent_''"

text \<open>The pattern is \<open>import ${name} from ["'`][\s\S]+\.svelte["'`]\<close>.\<close>

definition importStatementPattern :: "string \<Rightarrow> string" where
  "importStatementPattern nm =
     ''import '' @ nm @ '' from ['' @ [CHR 0x22, CHR 0x27, CHR 0x60] @ '']['' @ [CHR 0x5C] @ ''s''
       @ [CHR 0x5C] @ ''S]+'' @ [CHR 0x5C] @ ''.svelte['' @ [CHR 0x22, CHR 0x27, CHR 0x60] @ '']''"

definition isExistingSvelteComponentImport ::
  "Collaborators \<Rightarrow> Snapshot \<Rightarrow> string \<Rightarrow> string option \<Rightarrow> bool" where
  "isExistingSvelteComponentImport lib snapshot nm src =
     ((case src of None \<Rightarrow> False | Some s \<Rightarrow> s \<noteq> [])
      \<and> regExpMatch lib (importStatementPattern nm) (getFullText snapshot))"

record LabelAndInsert =
  li_label :: string
  li_insertText :: "string option"
  li_isSvelteComp :: bool
  li_replacementSpan :: "TextSpan option"

definition getCompletionLabelAndInsert ::
  "Collaborators \<Rightarrow> Snapshot \<Rightarrow> CompletionEntry \<Rightarrow> LabelAndInsert option" where
  "getCompletionLabelAndInsert lib snapshot entry =
     (let isScriptElement = (ce_kind entry = scriptElement);
          hasModifier = (case kindModifiers entry of None \<Rightarrow> False | Some m \<Rightarrow> m \<noteq> []);
          isSvelteComp = isSvelteComponentImport (ce_name entry);
          nm = (if isSvelteComp then changeSvelteComponentName lib (ce_name entry) else ce_name entry)
      in if isSvelteComp \<and> isExistingSvelteComponentImport lib snapshot nm (source entry) then None
         else if isScriptElement \<and> hasModifier then
           Some \<lparr> li_label =
                    (case kindModifiers entry of
                       None \<Rightarrow> nm
                     | Some m \<Rightarrow> if m \<noteq> [] \<and> \<not> endsWith nm m then nm @ m else nm),
                  li_insertText = Some nm,
                  li_isSvelteComp = isSvelteComp,
                  li_replacementSpan = None \<rparr>
         else (case replacementSpan entry of
                 Some sp \<Rightarrow>
                   Some \<lparr> li_label = nm,
                          li_insertText =
                            (case ce_insertText entry of
                               None \<Rightarrow> None
                             | Some t \<Rightarrow> if t = [] then None
                                         else Some (changeSvelteComponentName lib t)),
                          li_isSvelteComp = isSvelteComp,
                          li_replacementSpan = Some sp \<rparr>
               | None \<Rightarrow>
                   Some \<lparr> li_label = nm,
                          li_insertText = None,
                          li_isSvelteComp = isSvelteComp,
                          li_replacementSpan = None \<rparr>))"

definition toCompletionItem ::
  "Collaborators \<Rightarrow> Snapshot \<Rightarrow> CompletionEntry \<Rightarrow> string \<Rightarrow> Position \<Rightarrow> string set
     \<Rightarrow> CompletionItem option" where
  "toCompletionItem lib snapshot entry docUri position existingImports =
     (case getCompletionLabelAndInsert lib snapshot entry of
        None \<Rightarrow> None
      | Some li \<Rightarrow>
          if li_isSvelteComp li \<and> li_label li \<in> existingImports then None
          else
            Some \<lparr> label = li_label li,
                   insertText = li_insertText li,
                   kind = Some (scriptElementKindToCompletionItemKind lib (ce_kind entry)),
                   commitCharacters = getCommitCharactersForScriptElement lib (ce_kind entry),
                   sortText = Some (if li_isSvelteComp li then ''-1'' else ce_sortText entry),
                   preselect = (if li_isSvelteComp li then Some True else isRecommended entry),
                   detail = None,
                   documentation = None,
                   textEdit =
                     (case li_replacementSpan li of
                        None \<Rightarrow> None
                      | Some sp \<Rightarrow>
                          Some (IsTextEdit
                            (TextEdit_replace (convertRange lib (snap_positionAt snapshot) sp)
                               (case li_insertText li of None \<Rightarrow> li_label li | Some t \<Rightarrow> t)))),
                   additionalTextEdits = None,
                   data = Some \<lparr> data_entry = entry, data_uri = docUri, data_position = position \<rparr> \<rparr>)"

definition jsxTransformationPropStringLiteralCompletion ::
  "Collaborators \<Rightarrow> Config \<Rightarrow> LanguageService \<Rightarrow> ComponentInfoProvider option \<Rightarrow> int \<Rightarrow> Snapshot
     \<Rightarrow> CompletionEntry list option" where
  "jsxTransformationPropStringLiteralCompletion lib cfg lang componentInfo offset tsDoc =
     (case componentInfo of
        None \<Rightarrow> None
      | Some ci \<Rightarrow>
          if useNewTransformation cfg then None
          else (case getSourceFile lang (snap_filePath tsDoc) of
                  None \<Rightarrow> None
                | Some sourceFile \<Rightarrow>
                    (case findContainingNode lib sourceFile \<lparr>span_start = offset, span_length = 0\<rparr> of
                       None \<Rightarrow> None
                     | Some jsxAttr \<Rightarrow>
                         (case initializer jsxAttr of
                            None \<Rightarrow> None
                          | Some ini \<Rightarrow>
                              if \<not> isStringLiteral ini then None
                              else
                                (let span =
                                       (if getWidth ini \<noteq> 0
                                        then Some \<lparr>span_start = getStart ini + 1,
                                                    span_length = getWidth ini - 2\<rparr>
                                        else None)
                                 in Some (map (\<lambda>item. item \<lparr>replacementSpan := span\<rparr>)
                                            (getProp ci (attr_name jsxAttr))))))))"

definition svelte2tsxTypes :: "string set" where
  "svelte2tsxTypes = set
     [''Svelte2TsxComponent'', ''Svelte2TsxComponentConstructorParameters'',
      ''SvelteComponentConstructor'', ''SvelteActionReturnType'', ''SvelteTransitionConfig'',
      ''SvelteTransitionReturnType'', ''SvelteAnimationReturnType'', ''SvelteWithOptionalProps'',
      ''SvelteAllProps'', ''SveltePropsAnyFallback'', ''SvelteSlotsAnyFallback'',
      ''SvelteRestProps'', ''SvelteSlots'', ''SvelteStore'']"

definition isNoSvelte2tsxCompletion :: "CompletionEntry \<Rightarrow> bool" where
  "isNoSvelte2tsxCompletion v =
     (kindModifiers v \<noteq> Some ''declare''
      \<or> (\<not> startsWith (ce_name v) ''__sveltets_'' \<and> ce_name v \<notin> svelte2tsxTypes))"

definition isValidCompletion :: "Document \<Rightarrow> Position \<Rightarrow> CompletionEntry \<Rightarrow> bool" where
  "isValidCompletion document position v =
     (let isCompletionInHTMLStartTag =
            getNodeIfIsInHTMLStartTag (html document) (offsetAt document position)
      in if \<not> isCompletionInHTMLStartTag then isNoSvelte2tsxCompletion v
         else ce_kind v \<noteq> jsxAttribute \<and> isNoSvelte2tsxCompletion v)"

text \<open>\<open>.filter(isNotNullOrUndefined)\<close> on the mapped entries.\<close>

fun filterNotNull :: "'a option list \<Rightarrow> 'a list" where
  "filterNotNull [] = []"
| "filterNotNull (None # xs) = filterNotNull xs"
| "filterNotNull (Some x # xs) = x # filterNotNull xs"

definition CompletionItemKind_Field :: nat where
  "CompletionItemKind_Field = 5"

text \<open>
  \<open>getCompletions\<close> returns the completion list (or \<open>null\<close>, here \<open>None\<close>) and
  leaves the provider in a new state. \<open>isCancellationRequested n\<close> is what the
  cancellation token answers at the \<open>n\<close>-th place it is read (the token may be
  cancelled while the request runs); a request without a token passes \<open>\<lambda>_. False\<close>.
  In the branch of the cache hit the last completion is there, as
  \<open>canReuseLastCompletion\<close> has just tested; the case \<open>None\<close> is never taken.
\<close>

definition getCompletions ::
  "Collaborators \<Rightarrow> Config \<Rightarrow> ProviderState \<Rightarrow> Document \<Rightarrow> Position
     \<Rightarrow> CompletionContext option \<Rightarrow> (nat \<Rightarrow> bool)
     \<Rightarrow> CompletionList option \<times> ProviderState" where
  "getCompletions lib cfg this document position completionContext isCancellationRequested =
    (if isInTag lib position (styleInfo document) then (None, this)
     else
      (case getLSAndTSDoc lib document of (lang, tsDoc, userPreferences) \<Rightarrow>
       let filePath = snap_filePath tsDoc in
       if filePath = [] then (None, this)
       else
        let triggerCharacter =
              (case completionContext of None \<Rightarrow> None | Some c \<Rightarrow> ctx_triggerCharacter c);
            triggerKind = map_option ctx_triggerKind completionContext;
            validTriggerCharacter =
              (if isValidTriggerCharacter triggerCharacter then triggerCharacter else None);
            isCustomTriggerCharacter = (triggerKind = Some TriggerCharacter);
            isJsDocTriggerCharacter = (triggerCharacter = Some ''*'');
            isEventOrSlotLetTriggerCharacter = (triggerCharacter = Some '':'')
        in
        if isCustomTriggerCharacter \<and> validTriggerCharacter = None
           \<and> \<not> isJsDocTriggerCharacter \<and> \<not> isEventOrSlotLetTriggerCharacter
        then (None, this)
        else if canReuseLastCompletion lib (lastCompletion this) triggerKind triggerCharacter
                  document position
        then (case lastCompletion this of
                None \<Rightarrow> (None, this)
              | Some lc \<Rightarrow>
                  (lc_completionList lc,
                   this \<lparr> lastCompletion := Some (lc \<lparr> lc_position := position \<rparr>) \<rparr>))
        else
         let this1 = this \<lparr> lastCompletion := None \<rparr> in
         if \<not> isInGenerated tsDoc position then (None, this1)
         else
          let originalOffset = offsetAt document position;
              offset = snap_offsetAt tsDoc (getGeneratedPosition tsDoc position)
          in
          if isJsDocTriggerCharacter
          then (getJsDocTemplateCompletion lib tsDoc lang filePath offset, this1)
          else
           let svelteNode = svelteNodeAt tsDoc originalOffset in
           if (case svelteNode of
                 None \<Rightarrow> False
               | Some n \<Rightarrow>
                   node_type n = ''Text''
                   \<and> (case parent_type n of
                         None \<Rightarrow> False
                       | Some p \<Rightarrow>
                           p \<in> set [''Element'', ''InlineComponent'', ''Fragment'', ''SlotTemplate'']))
              \<or> substring (getText document) (originalOffset - 1) (originalOffset + 2) = ''></''
           then (None, this1)
           else if isCancellationRequested 0 then (None, this1)
           else
            let wordRange = getWordRangeAt lib (getText document) originalOffset;
                componentInfo = getComponentAtPosition lib lang document tsDoc position;
                attributeContext =
                  (case componentInfo of
                     None \<Rightarrow> None
                   | Some _ \<Rightarrow> getAttributeContextAtPosition lib document position);
                eventAndSlotLetCompletions =
                  getEventAndSlotLetCompletions lib componentInfo document attributeContext wordRange
            in
            if isEventOrSlotLetTriggerCharacter
            then (Some (CompletionList_create eventAndSlotLetCompletions (parserError tsDoc \<noteq> None)),
                  this1)
            else if isCancellationRequested 1 then (None, this1)
            else
             let this2 = this1 \<lparr> engineQueries :=
                           engineQueries this1 @ [(filePath, offset, validTriggerCharacter)] \<rparr>;
                 engineEntries =
                   (case getCompletionsAtPosition lang filePath offset userPreferences
                           validTriggerCharacter of
                      None \<Rightarrow> []
                    | Some es \<Rightarrow> es);
                 completions =
                   (if engineEntries = []
                    then (case jsxTransformationPropStringLiteralCompletion lib cfg lang
                                 componentInfo offset tsDoc of
                            None \<Rightarrow> []
                          | Some es \<Rightarrow> es)
                    else engineEntries)
             in
             if completions = [] \<and> eventAndSlotLetCompletions = []
             then ((if parserError tsDoc \<noteq> None then Some (CompletionList_create [] True) else None),
                   this2)
             else if length completions > 500
                     \<and> map_option node_type svelteNode = Some ''Element''
                     \<and> ce_kind (hd completions) \<noteq> memberVariableElement
             then (None, this2)
             else if length completions > 500
                     \<and> map_option node_type svelteNode = Some ''InlineComponent''
                     \<and> substring (getText document) (originalOffset - 1) (originalOffset + 1)
                           \<in> set [''  '', '' >'', '' /'']
             then
              (let props =
                     (if (case attributeContext of None \<Rightarrow> False | Some ac \<Rightarrow> inValue ac) then []
                      else (case componentInfo of
                              None \<Rightarrow> []
                            | Some ci \<Rightarrow>
                                map (\<lambda>e. componentInfoToCompletionEntry lib e []
                                             (Some CompletionItemKind_Field) document wordRange)
                                  (getProps ci)))
               in (Some (CompletionList_create (eventAndSlotLetCompletions @ props)
                           (parserError tsDoc \<noteq> None)),
                   this2))
             else
              (let existingImports = getExistingImports lib document;
                   wordRangeStartPosition = positionAt document (w_start wordRange);
                   completionItems =
                     map (fixTextEditRange wordRangeStartPosition)
                       (map (mapCompletionItemToOriginal lib tsDoc)
                          (filterNotNull
                             (map (\<lambda>e. toCompletionItem lib tsDoc e
                                          (pathToUrl lib (snap_filePath tsDoc)) position existingImports)
                                (filter (isValidCompletion document position) completions))))
                     @ eventAndSlotLetCompletions;
                   completionList =
                     CompletionList_create completionItems (parserError tsDoc \<noteq> None)
               in (Some completionList,
                   this2 \<lparr> lastCompletion := Some
                     \<lparr> lc_key = (case getFilePath document of None \<Rightarrow> [] | Some p \<Rightarrow> p),
                       lc_position = position,
                       lc_completionList = Some completionList \<rparr> \<rparr>))))"

section \<open>Code-action changes of the resolution pipeline\<close>

record TextChange =
  tc_span :: TextSpan
  tc_newText :: string







section \<open>Names for the stages of a request\<close>

text \<open>
  The theorems speak of a request that gets as far as some statement of
  \<open>getCompletions\<close>. The definitions of this section only name what the function
  computes on its way: the parts of the resolver's answer, the trigger data read from the
  completion context, the guards of its early returns, and the values of its locals
  \<open>eventAndSlotLetCompletions\<close> and \<open>completions\<close>.
\<close>

definition langOf :: "Collaborators \<Rightarrow> Document \<Rightarrow> LanguageService" where
  "langOf lib document = fst (getLSAndTSDoc lib document)"

definition tsDocOf :: "Collaborators \<Rightarrow> Document \<Rightarrow> Snapshot" where
  "tsDocOf lib document = fst (snd (getLSAndTSDoc lib document))"

definition userPreferencesOf :: "Collaborators \<Rightarrow> Document \<Rightarrow> UserPreferences" where
  "userPreferencesOf lib document = snd (snd (getLSAndTSDoc lib document))"

definition triggerCharacterOf :: "CompletionContext option \<Rightarrow> string option" where
  "triggerCharacterOf completionContext =
     (case completionContext of None \<Rightarrow> None | Some c \<Rightarrow> ctx_triggerCharacter c)"

definition triggerKindOf :: "CompletionContext option \<Rightarrow> CompletionTriggerKind option" where
  "triggerKindOf completionContext = map_option ctx_triggerKind completionContext"

text \<open>The guard of the return for a custom trigger character that is not allowed.\<close>

definition rejectedTrigger :: "CompletionContext option \<Rightarrow> bool" where
  "rejectedTrigger completionContext =
     (triggerKindOf completionContext = Some TriggerCharacter
      \<and> \<not> isValidTriggerCharacter (triggerCharacterOf completionContext)
      \<and> triggerCharacterOf completionContext \<noteq> Some ''*''
      \<and> triggerCharacterOf completionContext \<noteq> Some '':'')"

text \<open>The request gets to the cache lookup: none of the three returns before it is taken.\<close>

definition reachesCacheLookup ::
  "Collaborators \<Rightarrow> Document \<Rightarrow> Position \<Rightarrow> CompletionContext option \<Rightarrow> bool" where
  "reachesCacheLookup lib document position completionContext =
     (\<not> isInTag lib position (styleInfo document)
      \<and> snap_filePath (tsDocOf lib document) \<noteq> []
      \<and> \<not> rejectedTrigger completionContext)"

text \<open>The cache lookup succeeds.\<close>

definition servedFromCache ::
  "Collaborators \<Rightarrow> ProviderState \<Rightarrow> Document \<Rightarrow> Position \<Rightarrow> CompletionContext option \<Rightarrow> bool" where
  "servedFromCache lib this document position completionContext =
     canReuseLastCompletion lib (lastCompletion this) (triggerKindOf completionContext)
       (triggerCharacterOf completionContext) document position"

text \<open>The guard of the return for a cursor in plain text or at \<open>>|</\<close>.\<close>

definition inPlainText :: "Collaborators \<Rightarrow> Document \<Rightarrow> Position \<Rightarrow> bool" where
  "inPlainText lib document position =
     ((case svelteNodeAt (tsDocOf lib document) (offsetAt document position) of
         None \<Rightarrow> False
       | Some n \<Rightarrow>
           node_type n = ''Text''
           \<and> (case parent_type n of
                 None \<Rightarrow> False
               | Some p \<Rightarrow> p \<in> set [''Element'', ''InlineComponent'', ''Fragment'', ''SlotTemplate'']))
      \<or> substring (getText document) (offsetAt document position - 1)
            (offsetAt document position + 2) = ''></'')"

text \<open>The request gets to the computation of the event and slot-let completions.\<close>

definition reachesMetadataStage ::
  "Collaborators \<Rightarrow> ProviderState \<Rightarrow> Document \<Rightarrow> Position \<Rightarrow> CompletionContext option
     \<Rightarrow> (nat \<Rightarrow> bool) \<Rightarrow> bool" where
  "reachesMetadataStage lib this document position completionContext isCancellationRequested =
     (reachesCacheLookup lib document position completionContext
      \<and> \<not> servedFromCache lib this document position completionContext
      \<and> isInGenerated (tsDocOf lib document) position
      \<and> triggerCharacterOf completionContext \<noteq> Some ''*''
      \<and> \<not> inPlainText lib document position
      \<and> \<not> isCancellationRequested 0)"

text \<open>The request gets to the call of \<open>lang.getCompletionsAtPosition\<close>.\<close>

definition reachesEngineQuery ::
  "Collaborators \<Rightarrow> ProviderState \<Rightarrow> Document \<Rightarrow> Position \<Rightarrow> CompletionContext option
     \<Rightarrow> (nat \<Rightarrow> bool) \<Rightarrow> bool" where
  "reachesEngineQuery lib this document position completionContext isCancellationRequested =
     (reachesMetadataStage lib this document position completionContext isCancellationRequested
      \<and> triggerCharacterOf completionContext \<noteq> Some '':''
      \<and> \<not> isCancellationRequested 1)"

definition componentInfoAt :: "Collaborators \<Rightarrow> Document \<Rightarrow> Position \<Rightarrow> ComponentInfoProvider option" where
  "componentInfoAt lib document position =
     getComponentAtPosition lib (langOf lib document) document (tsDocOf lib document) position"

definition attributeContextAt :: "Collaborators \<Rightarrow> Document \<Rightarrow> Position \<Rightarrow> AttributeContext option" where
  "attributeContextAt lib document position =
     (case componentInfoAt lib document position of
        None \<Rightarrow> None
      | Some _ \<Rightarrow> getAttributeContextAtPosition lib document position)"

definition inAttributeValue :: "Collaborators \<Rightarrow> Document \<Rightarrow> Position \<Rightarrow> bool" where
  "inAttributeValue lib document position =
     (case attributeContextAt lib document position of None \<Rightarrow> False | Some ac \<Rightarrow> inValue ac)"

definition wordRangeAt :: "Collaborators \<Rightarrow> Document \<Rightarrow> Position \<Rightarrow> WordRange" where
  "wordRangeAt lib document position =
     getWordRangeAt lib (getText document) (offsetAt document position)"

text \<open>The value of the local \<open>eventAndSlotLetCompletions\<close>.\<close>

definition metadataCompletions :: "Collaborators \<Rightarrow> Document \<Rightarrow> Position \<Rightarrow> CompletionItem list" where
  "metadataCompletions lib document position =
     getEventAndSlotLetCompletions lib (componentInfoAt lib document position) document
       (attributeContextAt lib document position) (wordRangeAt lib document position)"

definition generatedOffset :: "Collaborators \<Rightarrow> Document \<Rightarrow> Position \<Rightarrow> int" where
  "generatedOffset lib document position =
     snap_offsetAt (tsDocOf lib document) (getGeneratedPosition (tsDocOf lib document) position)"

definition validTriggerCharacterOf :: "CompletionContext option \<Rightarrow> string option" where
  "validTriggerCharacterOf completionContext =
     (if isValidTriggerCharacter (triggerCharacterOf completionContext)
      then triggerCharacterOf completionContext else None)"

text \<open>The entries the engine answers with: \<open>lang.getCompletionsAtPosition(...)?.entries || []\<close>.\<close>

definition engineEntries ::
  "Collaborators \<Rightarrow> Document \<Rightarrow> Position \<Rightarrow> CompletionContext option \<Rightarrow> CompletionEntry list" where
  "engineEntries lib document position completionContext =
     (case getCompletionsAtPosition (langOf lib document) (snap_filePath (tsDocOf lib document))
             (generatedOffset lib document position) (userPreferencesOf lib document)
             (validTriggerCharacterOf completionContext) of
        None \<Rightarrow> []
      | Some es \<Rightarrow> es)"

text \<open>What the string-literal fallback gives: \<open>jsxTransformationPropStringLiteralCompletion(...) ?? []\<close>.\<close>

definition fallbackEntries ::
  "Collaborators \<Rightarrow> Config \<Rightarrow> Document \<Rightarrow> Position \<Rightarrow> CompletionEntry list" where
  "fallbackEntries lib cfg document position =
     (case jsxTransformationPropStringLiteralCompletion lib cfg (langOf lib document)
             (componentInfoAt lib document position) (generatedOffset lib document position)
             (tsDocOf lib document) of
        None \<Rightarrow> []
      | Some es \<Rightarrow> es)"

text \<open>The declared-prop completions of the narrowed answer.\<close>

definition propCompletions :: "Collaborators \<Rightarrow> Document \<Rightarrow> Position \<Rightarrow> CompletionItem list" where
  "propCompletions lib document position =
     (if inAttributeValue lib document position then []
      else (case componentInfoAt lib document position of
              None \<Rightarrow> []
            | Some ci \<Rightarrow>
                map (\<lambda>e. componentInfoToCompletionEntry lib e [] (Some CompletionItemKind_Field)
                            document (wordRangeAt lib document position))
                  (getProps ci)))"

text \<open>The editor sends a list of requests for one document, one after the other.\<close>

fun serveAll ::
  "Collaborators \<Rightarrow> Config \<Rightarrow> Document \<Rightarrow> ProviderState
     \<Rightarrow> (Position \<times> CompletionContext option) list
     \<Rightarrow> CompletionList option list \<times> ProviderState" where
  "serveAll lib cfg document this [] = ([], this)"
| "serveAll lib cfg document this ((position, completionContext) # rest) =
     (case getCompletions lib cfg this document position completionContext (\<lambda>_. False) of
        (answer, this') \<Rightarrow>
          (case serveAll lib cfg document this' rest of
             (answers, this'') \<Rightarrow> (answer # answers, this'')))"

section \<open>Sample inputs\<close>

definition pos :: "int \<Rightarrow> int \<Rightarrow> Position" where
  "pos l c = \<lparr>line = l, character = c\<rparr>"

definition rng :: "Position \<Rightarrow> Position \<Rightarrow> Range" where
  "rng a b = \<lparr>r_start = a, r_end = b\<rparr>"

definition plainItem :: "string \<Rightarrow> CompletionItem" where
  "plainItem l =
     \<lparr> label = l, insertText = None, kind = None, commitCharacters = None,
       sortText = None, preselect = None, detail = None, documentation = None,
       textEdit = None, additionalTextEdits = None, data = None \<rparr>"

definition editItem :: "string \<Rightarrow> Range \<Rightarrow> CompletionItem" where
  "editItem t r = (plainItem t) \<lparr> textEdit := Some (IsTextEdit (TextEdit_replace r t)) \<rparr>"

definition sampleEntry :: "string \<Rightarrow> ScriptElementKind \<Rightarrow> CompletionEntry" where
  "sampleEntry n k =
     \<lparr> ce_name = n, ce_insertText = None, ce_kind = k, kindModifiers = None, source = None,
       replacementSpan = None, ce_sortText = ''11'', isRecommended = None \<rparr>"

definition partInfo :: "string \<Rightarrow> string \<Rightarrow> ComponentPartInfo" where
  "partInfo n t = \<lparr> info_name = n, info_type = t, info_doc = None \<rparr>"

text \<open>A component with the events \<open>click\<close> and \<open>change\<close>, no slot-let and the prop
  \<open>title\<close>.\<close>

definition sampleComponent :: ComponentInfoProvider where
  "sampleComponent =
     \<lparr> getEvents = [partInfo ''click'' ''MouseEvent'', partInfo ''change'' ''Event''],
       getSlotLets = [],
       getProps = [partInfo ''title'' ''string''],
       getProp = (\<lambda>_. [sampleEntry ''large'' (otherElementKind ''string'')]) \<rparr>"

text \<open>A one-line document: the offset of a position is its column.\<close>

definition sampleDocument :: "string \<Rightarrow> Document" where
  "sampleDocument t =
     \<lparr> getText = t, getFilePath = Some ''/App.svelte'', styleInfo = None, scriptInfo = None,
       moduleScriptInfo = None, offsetAt = character, positionAt = pos 0,
       html = \<lparr> getNodeIfIsInStartTag = (\<lambda>_. True), getNodeIfIsInHTMLStartTag = (\<lambda>_. False) \<rparr> \<rparr>"

text \<open>A snapshot whose generated region ends at column \<open>limit\<close>, with a node of type
  \<open>nodeType\<close> at every offset.\<close>

definition sampleSnapshot :: "int \<Rightarrow> string \<Rightarrow> string option \<Rightarrow> Snapshot" where
  "sampleSnapshot limit nodeType err =
     \<lparr> snap_filePath = ''/App.svelte'',
       isInGenerated = (\<lambda>p. character p \<le> limit),
       snap_offsetAt = character,
       snap_positionAt = pos 0,
       getGeneratedPosition = (\<lambda>p. p),
       svelteNodeAt = (\<lambda>_. Some \<lparr> node_type = nodeType, parent_type = None \<rparr>),
       parserError = err,
       snap_scriptInfo = None,
       snap_moduleScriptInfo = None,
       getFullText = [] \<rparr>"

definition sampleLang :: "CompletionEntry list \<Rightarrow> LanguageService" where
  "sampleLang es =
     \<lparr> getCompletionsAtPosition = (\<lambda>_ _ _ _. Some es),
       getSourceFile = (\<lambda>_. Some (SourceFile ''/App.svelte'')) \<rparr>"

text \<open>A stand-in for \<open>changeSvelteComponentName\<close>: it drops the placeholder suffix.\<close>

definition stripComponentSuffix :: "string \<Rightarrow> string" where
  "stripComponentSuffix s =
     (if endsWith s ''__SvelteComponent_'' then take (length s - 18) s else s)"

definition sampleLib ::
  "LanguageService \<Rightarrow> Snapshot \<Rightarrow> ComponentInfoProvider option \<Rightarrow> AttributeContext option
     \<Rightarrow> JsxAttribute option \<Rightarrow> Collaborators" where
  "sampleLib lang tsDoc component attributeContext jsxAttr =
     \<lparr> getLSAndTSDoc = (\<lambda>_. (lang, tsDoc, \<lparr> importModuleSpecifierEnding = None \<rparr>)),
       isInTag = (\<lambda>_ _. False),
       isInScript = (\<lambda>_ _ _. False),
       getWordRangeAt = (\<lambda>_ n. \<lparr> w_start = n, w_end = n \<rparr>),
       toRange = (\<lambda>_ a b. rng (pos 0 a) (pos 0 b)),
       convertRange = (\<lambda>f sp. rng (f (span_start sp)) (f (span_start sp + span_length sp))),
       mapRangeToOriginal = (\<lambda>_ r. r),
       mapCompletionItemToOriginal = (\<lambda>_ i. i),
       getComponentAtPosition = (\<lambda>_ _ _ _. component),
       getAttributeContextAtPosition = (\<lambda>_ _. attributeContext),
       getJsDocTemplateCompletion = (\<lambda>_ _ _ _. None),
       findContainingNode = (\<lambda>_ _. jsxAttr),
       isPartOfImportStatement = (\<lambda>_ _. False),
       getRegExpMatches = (\<lambda>_. []),
       regExpMatch = (\<lambda>_ _. False),
       changeSvelteComponentName = stripComponentSuffix,
       pathToUrl = (\<lambda>p. ''file://'' @ p),
       scriptElementKindToCompletionItemKind = (\<lambda>_. 6),
       getCommitCharactersForScriptElement = (\<lambda>_. None),
       newLine = [CHR 0x0A] \<rparr>"

definition sampleConfig :: Config where
  "sampleConfig = \<lparr> defaultScriptLanguage = ''ts'', useNewTransformation = False \<rparr>"

definition emptyState :: ProviderState where
  "emptyState = \<lparr> lastCompletion = None, engineQueries = [] \<rparr>"

definition request :: "CompletionTriggerKind \<Rightarrow> string option \<Rightarrow> CompletionContext option" where
  "request k c = Some \<lparr> ctx_triggerKind = k, ctx_triggerCharacter = c \<rparr>"

definition noCancellation :: "nat \<Rightarrow> bool" where
  "noCancellation n = False"

text \<open>The scenario of a component tag: the engine offers \<open>foo\<close>, the component declares
  its events, and the generated region ends at column \<open>limit\<close>.\<close>

definition tagLib :: "int \<Rightarrow> Collaborators" where
  "tagLib limit =
     sampleLib (sampleLang [sampleEntry ''foo'' (otherElementKind ''var'')])
       (sampleSnapshot limit ''InlineComponent'' None) (Some sampleComponent) None None"

definition eventItem :: "string \<Rightarrow> string \<Rightarrow> CompletionItem" where
  "eventItem l d = (plainItem l) \<lparr> sortText := Some ''-1'', detail := Some d \<rparr>"

text \<open>The answer to a request at column 7 of \<open><Comp o />\<close> in that scenario, and the
  state the provider is left in.\<close>

definition tagList :: CompletionList where
  "tagList =
     \<lparr> items =
         [(plainItem ''foo'')
            \<lparr> kind := Some 6, sortText := Some ''11'',
              data := Some \<lparr> data_entry = sampleEntry ''foo'' (otherElementKind ''var''),
                             data_uri = ''file:///App.svelte'', data_position = pos 0 7 \<rparr> \<rparr>,
          eventItem ''on:click'' ''click: MouseEvent'',
          eventItem ''on:change'' ''change: Event''],
       isIncomplete = False \<rparr>"

definition cachedAt :: "int \<Rightarrow> LastCompletion" where
  "cachedAt c = \<lparr> lc_key = ''/App.svelte'', lc_position = pos 0 c, lc_completionList = Some tagList \<rparr>"

definition tagState :: "int \<Rightarrow> ProviderState" where
  "tagState c = \<lparr> lastCompletion = Some (cachedAt c), engineQueries = [(''/App.svelte'', 7, None)] \<rparr>"

text \<open>The requests of a user typing on line \<open>l\<close> after column \<open>c\<close>: \<open>n\<close> re-trigger
  requests, each one column to the right of the one before.\<close>

fun typingRequests :: "int \<Rightarrow> int \<Rightarrow> nat \<Rightarrow> (Position \<times> CompletionContext option) list" where
  "typingRequests l c 0 = []"
| "typingRequests l c (Suc n) =
     (pos l (c + 1), request TriggerForIncompleteCompletions None) # typingRequests l (c + 1) n"

text \<open>The scenario of a quoted attribute value of a component: the engine offers nothing,
  and the attribute \<open>size\<close> has a string literal as its value.\<close>

definition valueLib :: Collaborators where
  "valueLib =
     sampleLib (sampleLang []) (sampleSnapshot 20 ''InlineComponent'' None) (Some sampleComponent)
       (Some \<lparr> attributeName = ''size'', inValue = True \<rparr>)
       (Some \<lparr> attr_name = ''size'',
               initializer = Some \<lparr> isStringLiteral = True, getStart = 11, getWidth = 2 \<rparr> \<rparr>)"

definition valueDocument :: Document where
  "valueDocument = sampleDocument (''<Comp size='' @ [CHR 0x22, CHR 0x22] @ '' />'')"

text \<open>The scenario of a plain element where the engine offers nothing.\<close>

definition emptyLib :: "string option \<Rightarrow> Collaborators" where
  "emptyLib err = sampleLib (sampleLang []) (sampleSnapshot 20 ''Element'' err) None None None"

text \<open>The scenario of a start tag where the engine offers 501 global names.\<close>

definition globalsLib :: "string \<Rightarrow> Collaborators" where
  "globalsLib nodeType =
     sampleLib (sampleLang (replicate 501 (sampleEntry ''g'' (otherElementKind ''var''))))
       (sampleSnapshot 20 nodeType None) (Some sampleComponent) None None"

definition placeholderEntry :: "ScriptElementKind \<Rightarrow> string option \<Rightarrow> CompletionEntry" where
  "placeholderEntry k m = (sampleEntry ''Foo__SvelteComponent_'' k) \<lparr> kindModifiers := m \<rparr>"

definition importLib :: Collaborators where
  "importLib = (tagLib 20) \<lparr> getRegExpMatches := (\<lambda>_. [NamedImports '' Foo, Bar '']) \<rparr>"

definition importChange :: TextChange where
  "importChange =
     \<lparr> tc_span = \<lparr> span_start = 40, span_length = 3 \<rparr>,
       tc_newText = ''import type { a } from lib;'' @ [CHR 0x0A] \<rparr>"

section \<open>Unfolding lemmas\<close>

lemmas stage_defs =
  reachesEngineQuery_def reachesMetadataStage_def reachesCacheLookup_def servedFromCache_def
  rejectedTrigger_def inPlainText_def metadataCompletions_def engineEntries_def fallbackEntries_def
  propCompletions_def componentInfoAt_def attributeContextAt_def inAttributeValue_def
  wordRangeAt_def generatedOffset_def validTriggerCharacterOf_def
  langOf_def tsDocOf_def userPreferencesOf_def

lemmas trigger_defs = triggerKindOf_def triggerCharacterOf_def

lemmas sample_defs =
  tagLib_def valueLib_def emptyLib_def globalsLib_def importLib_def valueDocument_def
  sampleLib_def sampleLang_def sampleSnapshot_def sampleDocument_def sampleComponent_def
  sampleEntry_def placeholderEntry_def partInfo_def sampleConfig_def emptyState_def request_def
  noCancellation_def tagList_def tagState_def cachedAt_def eventItem_def plainItem_def editItem_def
  pos_def rng_def stripComponentSuffix_def importChange_def

lemmas provider_defs =
  getCompletions_def canReuseLastCompletion_def isValidTriggerCharacter_def
  validTriggerCharacters_def getEventAndSlotLetCompletions_def componentInfoToCompletionEntry_def
  jsxTransformationPropStringLiteralCompletion_def getExistingImports_def isValidCompletion_def
  isNoSvelte2tsxCompletion_def toCompletionItem_def getCompletionLabelAndInsert_def
  isSvelteComponentImport_def isExistingSvelteComponentImport_def fixTextEditRange_def
  CompletionList_create_def TextEdit_replace_def substring_def substringFrom_def clampIndex_def
  startsWith_def endsWith_def CompletionItemKind_Field_def
  TextEdit_is_def Range_is_def Position_is_def uinteger_is_def

lemma canReuse_not_rejected:
  "canReuseLastCompletion lib lst (triggerKindOf ctx) (triggerCharacterOf ctx) document position
   \<Longrightarrow> \<not> rejectedTrigger ctx"
  by (auto simp: canReuseLastCompletion_def rejectedTrigger_def isValidTriggerCharacter_def
      validTriggerCharacters_def split: option.splits)

lemma valid_None_iff:
  "((if isValidTriggerCharacter tc then tc else None) = None) = (\<not> isValidTriggerCharacter tc)"
  by (cases tc) (simp_all add: isValidTriggerCharacter_def)

text \<open>A cache hit: the cached list is returned and only the stored position changes.\<close>

lemma getCompletions_hit:
  assumes "\<not> isInTag lib position (styleInfo document)"
    and "snap_filePath (tsDocOf lib document) \<noteq> []"
    and "lastCompletion this = Some lc"
    and "canReuseLastCompletion lib (Some lc) (triggerKindOf ctx) (triggerCharacterOf ctx)
           document position"
  shows "getCompletions lib cfg this document position ctx cancel
           = (lc_completionList lc, this \<lparr> lastCompletion := Some (lc \<lparr> lc_position := position \<rparr>) \<rparr>)"
proof -
  obtain lang tsDoc prefs where r: "getLSAndTSDoc lib document = (lang, tsDoc, prefs)"
    by (cases "getLSAndTSDoc lib document") auto
  from assms(2) r have fp: "snap_filePath tsDoc \<noteq> []" by (simp add: tsDocOf_def)
  from canReuse_not_rejected [OF assms(4)]
  have nr: "\<not> (triggerKindOf ctx = Some TriggerCharacter
      \<and> \<not> isValidTriggerCharacter (triggerCharacterOf ctx)
      \<and> triggerCharacterOf ctx \<noteq> Some ''*''
      \<and> triggerCharacterOf ctx \<noteq> Some '':'')"
    by (simp add: rejectedTrigger_def)
  show ?thesis
    unfolding getCompletions_def
    using assms(1,3,4) fp nr r
    by (auto simp add: Let_def valid_None_iff trigger_defs [symmetric])
qed

text \<open>The return for the trigger character \<open>:\<close>.\<close>

lemma getCompletions_metadata_only:
  assumes "reachesMetadataStage lib this document position ctx cancel"
    and "triggerCharacterOf ctx = Some '':''"
  shows "getCompletions lib cfg this document position ctx cancel
           = (Some (CompletionList_create (metadataCompletions lib document position)
                      (parserError (tsDocOf lib document) \<noteq> None)),
              this \<lparr> lastCompletion := None \<rparr>)"
proof -
  obtain lang tsDoc prefs where r: "getLSAndTSDoc lib document = (lang, tsDoc, prefs)"
    by (cases "getLSAndTSDoc lib document") auto
  show ?thesis
    using assms r
    unfolding getCompletions_def stage_defs
    by (auto simp add: Let_def valid_None_iff trigger_defs [symmetric])
qed

text \<open>Every return before and at the test of the generated region gives \<open>null\<close>, the
  cache hit apart.\<close>

lemma getCompletions_outside_generated:
  assumes "\<not> isInGenerated (tsDocOf lib document) position"
    and "\<not> servedFromCache lib this document position ctx"
  shows "fst (getCompletions lib cfg this document position ctx cancel) = None"
proof -
  obtain lang tsDoc prefs where r: "getLSAndTSDoc lib document = (lang, tsDoc, prefs)"
    by (cases "getLSAndTSDoc lib document") auto
  show ?thesis
    using assms r
    unfolding getCompletions_def stage_defs
    by (auto simp add: Let_def trigger_defs [symmetric])
qed

text \<open>The return for no entry at all.\<close>

lemma getCompletions_nothing_found:
  assumes "reachesEngineQuery lib this document position ctx cancel"
    and "engineEntries lib document position ctx = []"
    and "fallbackEntries lib cfg document position = []"
    and "metadataCompletions lib document position = []"
  shows "getCompletions lib cfg this document position ctx cancel
           = ((if parserError (tsDocOf lib document) \<noteq> None
               then Some (CompletionList_create [] True) else None),
              this \<lparr> lastCompletion := None,
                     engineQueries := engineQueries this @
                       [(snap_filePath (tsDocOf lib document), generatedOffset lib document position,
                         validTriggerCharacterOf ctx)] \<rparr>)"
proof -
  obtain lang tsDoc prefs where r: "getLSAndTSDoc lib document = (lang, tsDoc, prefs)"
    by (cases "getLSAndTSDoc lib document") auto
  show ?thesis
    using assms r
    unfolding getCompletions_def stage_defs
    by (auto simp add: Let_def valid_None_iff trigger_defs [symmetric])
qed

text \<open>The two returns of the cap at 500 entries.\<close>

lemma getCompletions_discard:
  assumes "reachesEngineQuery lib this document position ctx cancel"
    and "length (engineEntries lib document position ctx) > 500"
    and "map_option node_type (svelteNodeAt (tsDocOf lib document) (offsetAt document position))
           = Some ''Element''"
    and "ce_kind (hd (engineEntries lib document position ctx)) \<noteq> memberVariableElement"
  shows "fst (getCompletions lib cfg this document position ctx cancel) = None"
proof -
  obtain lang tsDoc prefs where r: "getLSAndTSDoc lib document = (lang, tsDoc, prefs)"
    by (cases "getLSAndTSDoc lib document") auto
  from assms(2) have ne: "engineEntries lib document position ctx \<noteq> []" by auto
  show ?thesis
    using assms r ne
    unfolding getCompletions_def stage_defs
    by (auto simp add: Let_def valid_None_iff trigger_defs [symmetric])
qed

lemma getCompletions_narrow:
  assumes "reachesEngineQuery lib this document position ctx cancel"
    and "length (engineEntries lib document position ctx) > 500"
    and "map_option node_type (svelteNodeAt (tsDocOf lib document) (offsetAt document position))
           = Some ''InlineComponent''"
    and "substring (getText document) (offsetAt document position - 1)
           (offsetAt document position + 1) \<in> set [''  '', '' >'', '' /'']"
  shows "fst (getCompletions lib cfg this document position ctx cancel)
           = Some (CompletionList_create
                     (metadataCompletions lib document position @ propCompletions lib document position)
                     (parserError (tsDocOf lib document) \<noteq> None))"
proof -
  obtain lang tsDoc prefs where r: "getLSAndTSDoc lib document = (lang, tsDoc, prefs)"
    by (cases "getLSAndTSDoc lib document") auto
  from assms(2) have ne: "engineEntries lib document position ctx \<noteq> []" by auto
  show ?thesis
    using assms r ne
    unfolding getCompletions_def stage_defs
    by (auto simp add: Let_def valid_None_iff trigger_defs [symmetric])
qed

text \<open>The labels of the event and slot-let completions.\<close>

lemma metadataCompletions_labels:
  assumes "componentInfoAt lib document position = Some ci"
    and "\<not> inAttributeValue lib document position"
  shows "map label (metadataCompletions lib document position)
           = map (\<lambda>e. ''on:'' @ info_name e) (getEvents ci)
             @ map (\<lambda>s. ''let:'' @ info_name s) (getSlotLets ci)"
  using assms
  by (simp add: metadataCompletions_def getEventAndSlotLetCompletions_def inAttributeValue_def
      componentInfoToCompletionEntry_def Let_def comp_def)

lemma metadataCompletions_none:
  assumes "componentInfoAt lib document position = None \<or> inAttributeValue lib document position"
  shows "metadataCompletions lib document position = []"
  using assms
  by (auto simp add: metadataCompletions_def getEventAndSlotLetCompletions_def inAttributeValue_def
      split: option.splits)

text \<open>The first request of the component-tag scenario computes its list and stores it.\<close>

lemma tag_first_request:
  "getCompletions (tagLib l) sampleConfig emptyState (sampleDocument ''<Comp o />'') (pos 0 7)
     (request Invoked None) noCancellation
     = (if 7 \<le> l then (Some tagList, tagState 7) else (None, emptyState))"
  by (simp add: provider_defs sample_defs Let_def)

section \<open>Properties of the text-edit range fixer\<close>

lemma substring_prefix_suffix:
  "0 \<le> d \<Longrightarrow> substring t 0 d @ substringFrom t d = t"
  by (simp add: substring_def substringFrom_def clampIndex_def Let_def min_def)

lemmas textEdit_is_defs = TextEdit_is_def Range_is_def Position_is_def uinteger_is_def

text \<open>An item whose text edit fails \<open>TextEdit.is\<close> is returned as it is.\<close>

lemma fixTextEditRange_not_text_edit:
  "textEdit item = Some e \<Longrightarrow> \<not> TextEdit_is e \<Longrightarrow> fixTextEditRange anchor item = item"
  by (simp add: fixTextEditRange_def)

text \<open>An item whose text edit starts right of the anchor column is returned as it is.\<close>

lemma fixTextEditRange_right_of_anchor:
  "textEdit item = Some (IsTextEdit te) \<Longrightarrow> character anchor < character (r_start (editRange te))
   \<Longrightarrow> fixTextEditRange anchor item = item"
  by (simp add: fixTextEditRange_def Let_def)

text \<open>
  The claim that the primary edit of every item that went through the fixer starts at or
  right of the anchor column fails for a text edit whose range is not one of unsigned
  integers. The edit of a position that could not be mapped back to the original document
  has line -1 and column -1; it fails \<open>TextEdit.is\<close>, the item is returned as it is,
  and its primary edit still starts at column -1, left of the anchor column 4.
\<close>

theorem fixTextEditRange_unmapped_counterexample:
  "textEdit (editItem ''abcdef'' (rng (pos (- 1) (- 1)) (pos (- 1) (- 1))))
     = Some (IsTextEdit (TextEdit_replace (rng (pos (- 1) (- 1)) (pos (- 1) (- 1))) ''abcdef''))
   \<and> fixTextEditRange (pos 0 4) (editItem ''abcdef'' (rng (pos (- 1) (- 1)) (pos (- 1) (- 1))))
     = editItem ''abcdef'' (rng (pos (- 1) (- 1)) (pos (- 1) (- 1)))
   \<and> character (r_start (editRange (TextEdit_replace (rng (pos (- 1) (- 1)) (pos (- 1) (- 1))) ''abcdef'')))
     < character (pos 0 4)"
  by (simp add: fixTextEditRange_def textEdit_is_defs editItem_def plainItem_def
      TextEdit_replace_def pos_def rng_def)

text \<open>
  C3 (as amended). For an item whose primary edit is a text edit that passes
  \<open>TextEdit.is\<close> (the lines and columns of its range are unsigned integers), the
  primary edit of the fixed item never starts at a column left of the anchor column; and
  whenever the fixer shortened the replacement text, the item carries exactly one
  additional edit, which runs from the original start to the anchor column on the
  original start's line and whose text, followed by the new primary text, is the
  original replacement text.
\<close>

theorem fixTextEditRange_anchor_and_prefix:
  assumes "textEdit item = Some (IsTextEdit te)"
    and "TextEdit_is (IsTextEdit te)"
  shows "\<exists>te'. textEdit (fixTextEditRange anchor item) = Some (IsTextEdit te')
           \<and> character anchor \<le> character (r_start (editRange te'))
           \<and> (newText te' \<noteq> newText te \<longrightarrow>
                (\<exists>a. additionalTextEdits (fixTextEditRange anchor item) = Some [a]
                   \<and> editRange a = \<lparr> r_start = r_start (editRange te),
                                      r_end = \<lparr>line = line (r_start (editRange te)),
                                               character = character anchor\<rparr> \<rparr>
                   \<and> newText a @ newText te' = newText te))"
proof (cases "character (r_start (editRange te)) > character anchor")
  case True
  with assms show ?thesis
    by (simp add: fixTextEditRange_def Let_def)
next
  case False
  then have d: "0 \<le> character anchor - character (r_start (editRange te))" by simp
  from False assms show ?thesis
    by (simp add: fixTextEditRange_def Let_def TextEdit_replace_def
        substring_prefix_suffix [OF d])
qed

theorem fixTextEditRange_anchor_and_prefix_witness:
  "textEdit (editItem ''abcdef'' (rng (pos 0 2) (pos 0 6)))
     = Some (IsTextEdit (TextEdit_replace (rng (pos 0 2) (pos 0 6)) ''abcdef''))
   \<and> TextEdit_is (IsTextEdit (TextEdit_replace (rng (pos 0 2) (pos 0 6)) ''abcdef''))
   \<and> textEdit (fixTextEditRange (pos 0 4) (editItem ''abcdef'' (rng (pos 0 2) (pos 0 6))))
     = Some (IsTextEdit (TextEdit_replace (rng (pos 0 4) (pos 0 6)) ''cdef''))
   \<and> ''cdef'' \<noteq> ''abcdef''
   \<and> additionalTextEdits (fixTextEditRange (pos 0 4) (editItem ''abcdef'' (rng (pos 0 2) (pos 0 6))))
     = Some [TextEdit_replace (rng (pos 0 2) (pos 0 4)) ''ab'']"
proof -
  have h: "textEdit (editItem ''abcdef'' (rng (pos 0 2) (pos 0 6)))
     = Some (IsTextEdit (TextEdit_replace (rng (pos 0 2) (pos 0 6)) ''abcdef''))"
    by (simp add: editItem_def)
  have v: "TextEdit_is (IsTextEdit (TextEdit_replace (rng (pos 0 2) (pos 0 6)) ''abcdef''))"
    by (simp add: textEdit_is_defs TextEdit_replace_def pos_def rng_def)
  show ?thesis
    using h v fixTextEditRange_anchor_and_prefix [OF h v, of "pos 0 4"]
    by (simp add: fixTextEditRange_def textEdit_is_defs editItem_def plainItem_def
        TextEdit_replace_def pos_def rng_def Let_def substring_def substringFrom_def clampIndex_def)
qed

text \<open>
  C7. The claim is that an edit starting at or after the anchor column on the anchor's line
  is returned unchanged, and that only an edit on the anchor's line is split. The guard is
  \<open>start.character > wordRangePosition.character\<close>, and its line test compares the
  anchor's line with itself. So an edit that starts exactly at the anchor column gains an
  empty additional edit, and an edit on another line is split as well.
\<close>

theorem fixTextEditRange_boundary_and_line_eval:
  "fixTextEditRange (pos 0 2) (editItem ''abcdef'' (rng (pos 0 2) (pos 0 6)))
     = (editItem ''abcdef'' (rng (pos 0 2) (pos 0 6)))
         \<lparr> additionalTextEdits := Some [TextEdit_replace (rng (pos 0 2) (pos 0 2)) []] \<rparr>
   \<and> fixTextEditRange (pos 0 2) (editItem ''abcdef'' (rng (pos 0 2) (pos 0 6)))
     \<noteq> editItem ''abcdef'' (rng (pos 0 2) (pos 0 6))
   \<and> fixTextEditRange (pos 7 4) (editItem ''abcdef'' (rng (pos 0 2) (pos 0 6)))
     = (editItem ''cdef'' (rng (pos 0 4) (pos 0 6)))
         \<lparr> label := ''abcdef'',
           additionalTextEdits := Some [TextEdit_replace (rng (pos 0 2) (pos 0 4)) ''ab''] \<rparr>"
  by (simp add: fixTextEditRange_def textEdit_is_defs editItem_def plainItem_def
      TextEdit_replace_def pos_def rng_def Let_def substring_def substringFrom_def clampIndex_def)

theorem fixTextEditRange_boundary_and_line_eval_witness:
  "additionalTextEdits (fixTextEditRange (pos 0 2) (editItem ''abcdef'' (rng (pos 0 2) (pos 0 6))))
     = Some [TextEdit_replace (rng (pos 0 2) (pos 0 2)) []]
   \<and> textEdit (fixTextEditRange (pos 7 4) (editItem ''abcdef'' (rng (pos 0 2) (pos 0 6))))
     = Some (IsTextEdit (TextEdit_replace (rng (pos 0 4) (pos 0 6)) ''cdef''))"
  using fixTextEditRange_boundary_and_line_eval
  by (simp add: editItem_def plainItem_def)

section \<open>The completion cache\<close>

text \<open>
  C1. \<open>canReuseLastCompletion\<close> holds exactly when there is a last completion whose key is
  the document's file path and whose position is on the line of the new position, and
  either the columns differ by less than 2 and the request is a re-trigger for incomplete
  completions or has the trigger character \<open>.\<close> inside an import statement, or the columns
  differ by less than 4, the trigger character is \<open>:\<close> and the offset is in a start tag.
  On a hit, that is when the request gets to the cache lookup (the cursor is not in the
  style block and the snapshot has a file path) and the lookup succeeds, \<open>getCompletions\<close>
  returns the cached list as it is and changes nothing but the stored position, which
  becomes the new position; in particular no engine query is recorded.
\<close>

theorem canReuseLastCompletion_and_hit:
  "(canReuseLastCompletion lib lst triggerKind triggerCharacter document position
      \<longleftrightarrow> (\<exists>c. lst = Some c
             \<and> getFilePath document = Some (lc_key c)
             \<and> line (lc_position c) = line position
             \<and> ((\<bar>character (lc_position c) - character position\<bar> < 2
                   \<and> (triggerKind = Some TriggerForIncompleteCompletions
                       \<or> (triggerCharacter = Some ''.''
                           \<and> isPartOfImportStatement lib (getText document) position)))
                 \<or> (\<bar>character (lc_position c) - character position\<bar> < 4
                     \<and> triggerCharacter = Some '':''
                     \<and> getNodeIfIsInStartTag (html document) (offsetAt document position)))))
   \<and> (\<not> isInTag lib position (styleInfo document)
        \<longrightarrow> snap_filePath (tsDocOf lib document) \<noteq> []
        \<longrightarrow> lastCompletion this = Some lc
        \<longrightarrow> servedFromCache lib this document position ctx
        \<longrightarrow> getCompletions lib cfg this document position ctx cancel
              = (lc_completionList lc,
                 this \<lparr> lastCompletion := Some (lc \<lparr> lc_position := position \<rparr>) \<rparr>)
            \<and> engineQueries (snd (getCompletions lib cfg this document position ctx cancel))
              = engineQueries this)"
proof (intro conjI impI)
  show "canReuseLastCompletion lib lst triggerKind triggerCharacter document position
      \<longleftrightarrow> (\<exists>c. lst = Some c
             \<and> getFilePath document = Some (lc_key c)
             \<and> line (lc_position c) = line position
             \<and> ((\<bar>character (lc_position c) - character position\<bar> < 2
                   \<and> (triggerKind = Some TriggerForIncompleteCompletions
                       \<or> (triggerCharacter = Some ''.''
                           \<and> isPartOfImportStatement lib (getText document) position)))
                 \<or> (\<bar>character (lc_position c) - character position\<bar> < 4
                     \<and> triggerCharacter = Some '':''
                     \<and> getNodeIfIsInStartTag (html document) (offsetAt document position))))"
    by (cases lst) (auto simp add: canReuseLastCompletion_def)
next
  assume h: "\<not> isInTag lib position (styleInfo document)"
    "snap_filePath (tsDocOf lib document) \<noteq> []"
    "lastCompletion this = Some lc"
    "servedFromCache lib this document position ctx"
  from h(3,4) have c: "canReuseLastCompletion lib (Some lc) (triggerKindOf ctx)
      (triggerCharacterOf ctx) document position"
    by (simp add: servedFromCache_def)
  from getCompletions_hit [OF h(1,2,3) c]
  show "getCompletions lib cfg this document position ctx cancel
        = (lc_completionList lc, this \<lparr> lastCompletion := Some (lc \<lparr> lc_position := position \<rparr>) \<rparr>)"
    and "engineQueries (snd (getCompletions lib cfg this document position ctx cancel))
        = engineQueries this"
    by simp_all
qed

theorem canReuseLastCompletion_and_hit_witness:
  "\<not> isInTag (tagLib 20) (pos 0 8) (styleInfo (sampleDocument ''<Comp on />''))
   \<and> snap_filePath (tsDocOf (tagLib 20) (sampleDocument ''<Comp on />'')) \<noteq> []
   \<and> lastCompletion (tagState 7) = Some (cachedAt 7)
   \<and> servedFromCache (tagLib 20) (tagState 7) (sampleDocument ''<Comp on />'') (pos 0 8)
        (request TriggerForIncompleteCompletions None)
   \<and> getCompletions (tagLib 20) sampleConfig (tagState 7) (sampleDocument ''<Comp on />'') (pos 0 8)
        (request TriggerForIncompleteCompletions None) noCancellation
      = (Some tagList, tagState 8)"
proof -
  have h1: "\<not> isInTag (tagLib 20) (pos 0 8) (styleInfo (sampleDocument ''<Comp on />''))"
    by (simp add: sample_defs)
  have h2: "snap_filePath (tsDocOf (tagLib 20) (sampleDocument ''<Comp on />'')) \<noteq> []"
    by (simp add: sample_defs tsDocOf_def)
  have h3: "lastCompletion (tagState 7) = Some (cachedAt 7)"
    by (simp add: tagState_def)
  have h4: "servedFromCache (tagLib 20) (tagState 7) (sampleDocument ''<Comp on />'') (pos 0 8)
        (request TriggerForIncompleteCompletions None)"
    by (simp add: servedFromCache_def canReuseLastCompletion_def trigger_defs sample_defs)
  from canReuseLastCompletion_and_hit
    [THEN conjunct2, rule_format, OF h1 h2 h3 h4, THEN conjunct1, of sampleConfig noCancellation]
  have "getCompletions (tagLib 20) sampleConfig (tagState 7) (sampleDocument ''<Comp on />'')
          (pos 0 8) (request TriggerForIncompleteCompletions None) noCancellation
        = (Some tagList, tagState 8)"
    by (simp add: tagState_def cachedAt_def)
  with h1 h2 h3 h4 show ?thesis by simp
qed

text \<open>
  C10. Every cache hit moves the stored position to the new request and keeps the stored
  list, so the window of reuse follows the requests. With a list cached at column \<open>c\<close>
  of line \<open>l\<close>, the \<open>n\<close> re-trigger requests at the columns \<open>c + 1\<close>, ..., \<open>c + n\<close>
  of that line, each one column from the one before, are all answered with the cached
  list, and the last of them is \<open>n\<close> columns away from where the list was computed, for
  every \<open>n\<close>.
\<close>

theorem cache_window_follows_requests:
  assumes "lastCompletion this = Some lc"
    and "lc_position lc = pos l c"
    and "getFilePath document = Some (lc_key lc)"
    and "snap_filePath (tsDocOf lib document) \<noteq> []"
    and "\<forall>p. \<not> isInTag lib p (styleInfo document)"
  shows "serveAll lib cfg document this (typingRequests l c n)
           = (replicate n (lc_completionList lc),
              this \<lparr> lastCompletion := Some (lc \<lparr> lc_position := pos l (c + int n) \<rparr>) \<rparr>)"
  using assms(1,2,3)
proof (induction n arbitrary: this lc c)
  case 0
  then show ?case by simp
next
  case (Suc n)
  let ?p = "pos l (c + 1)"
  let ?ctx = "request TriggerForIncompleteCompletions None"
  let ?lc = "lc \<lparr> lc_position := ?p \<rparr>"
  let ?st = "this \<lparr> lastCompletion := Some ?lc \<rparr>"
  have reuse: "canReuseLastCompletion lib (Some lc) (triggerKindOf ?ctx) (triggerCharacterOf ?ctx)
      document ?p"
    using Suc.prems
    by (simp add: canReuseLastCompletion_def trigger_defs request_def pos_def)
  have step: "getCompletions lib cfg this document ?p ?ctx (\<lambda>_. False)
      = (lc_completionList lc, ?st)"
    using getCompletions_hit [OF _ assms(4) Suc.prems(1) reuse] assms(5) by simp
  have rest: "serveAll lib cfg document ?st (typingRequests l (c + 1) n)
      = (replicate n (lc_completionList ?lc),
         ?st \<lparr> lastCompletion := Some (?lc \<lparr> lc_position := pos l (c + 1 + int n) \<rparr>) \<rparr>)"
    using Suc.prems by (intro Suc.IH) simp_all
  have "c + 1 + int n = c + int (Suc n)" by simp
  with step rest show ?case by simp
qed

theorem cache_window_follows_requests_witness:
  "getCompletions (tagLib 7) sampleConfig emptyState (sampleDocument ''<Comp o />'') (pos 0 7)
     (request Invoked None) noCancellation = (Some tagList, tagState 7)
   \<and> lastCompletion (tagState 7) = Some (cachedAt 7)
   \<and> lc_position (cachedAt 7) = pos 0 7
   \<and> getFilePath (sampleDocument ''<Comp on />'') = Some (lc_key (cachedAt 7))
   \<and> snap_filePath (tsDocOf (tagLib 7) (sampleDocument ''<Comp on />'')) \<noteq> []
   \<and> (\<forall>p. \<not> isInTag (tagLib 7) p (styleInfo (sampleDocument ''<Comp on />'')))
   \<and> serveAll (tagLib 7) sampleConfig (sampleDocument ''<Comp on />'') (tagState 7)
        (typingRequests 0 7 40)
      = (replicate 40 (Some tagList), tagState 47)"
proof -
  have h0: "getCompletions (tagLib 7) sampleConfig emptyState (sampleDocument ''<Comp o />'')
      (pos 0 7) (request Invoked None) noCancellation = (Some tagList, tagState 7)"
    by (simp add: tag_first_request)
  have h1: "lastCompletion (tagState 7) = Some (cachedAt 7)"
    by (simp add: tagState_def)
  have h2: "lc_position (cachedAt 7) = pos 0 7"
    by (simp add: cachedAt_def)
  have h3: "getFilePath (sampleDocument ''<Comp on />'') = Some (lc_key (cachedAt 7))"
    by (simp add: cachedAt_def sampleDocument_def)
  have h4: "snap_filePath (tsDocOf (tagLib 7) (sampleDocument ''<Comp on />'')) \<noteq> []"
    by (simp add: sample_defs tsDocOf_def)
  have h5: "\<forall>p. \<not> isInTag (tagLib 7) p (styleInfo (sampleDocument ''<Comp on />''))"
    by (simp add: sample_defs)
  from cache_window_follows_requests [OF h1 h2 h3 h4 h5, of sampleConfig 40]
  have "serveAll (tagLib 7) sampleConfig (sampleDocument ''<Comp on />'') (tagState 7)
          (typingRequests 0 7 40)
        = (replicate 40 (Some tagList), tagState 47)"
    by (simp add: tagState_def cachedAt_def)
  with h0 h1 h2 h3 h4 h5 show ?thesis by simp
qed

section \<open>Requests outside the generated region\<close>

text \<open>
  The claim that every request outside the generated region is answered with \<open>null\<close>
  fails for a request served from the cache, since the cache lookup comes before the test
  of the region. The first request, at column 7 of a region that ends there, computes a
  list; the re-trigger request one column further lies outside the region and is answered
  with that list.
\<close>

theorem outside_generated_cache_counterexample:
  "getCompletions (tagLib 7) sampleConfig emptyState (sampleDocument ''<Comp o />'') (pos 0 7)
     (request Invoked None) noCancellation = (Some tagList, tagState 7)
   \<and> \<not> isInGenerated (tsDocOf (tagLib 7) (sampleDocument ''<Comp on />'')) (pos 0 8)
   \<and> fst (getCompletions (tagLib 7) sampleConfig (tagState 7) (sampleDocument ''<Comp on />'')
            (pos 0 8) (request TriggerForIncompleteCompletions None) noCancellation)
      = Some tagList"
proof -
  have first: "getCompletions (tagLib 7) sampleConfig emptyState (sampleDocument ''<Comp o />'')
      (pos 0 7) (request Invoked None) noCancellation = (Some tagList, tagState 7)"
    by (simp add: tag_first_request)
  have outside: "\<not> isInGenerated (tsDocOf (tagLib 7) (sampleDocument ''<Comp on />'')) (pos 0 8)"
    by (simp add: sample_defs tsDocOf_def)
  have reuse: "canReuseLastCompletion (tagLib 7) (Some (cachedAt 7))
      (triggerKindOf (request TriggerForIncompleteCompletions None))
      (triggerCharacterOf (request TriggerForIncompleteCompletions None))
      (sampleDocument ''<Comp on />'') (pos 0 8)"
    by (simp add: canReuseLastCompletion_def trigger_defs sample_defs)
  have second: "fst (getCompletions (tagLib 7) sampleConfig (tagState 7)
      (sampleDocument ''<Comp on />'') (pos 0 8)
      (request TriggerForIncompleteCompletions None) noCancellation) = Some tagList"
    by (subst getCompletions_hit [OF _ _ _ reuse])
       (simp_all add: sample_defs tsDocOf_def)
  from first outside second show ?thesis by simp
qed

text \<open>
  C4 (as amended). For every request whose position lies outside the generated region and
  that is not served from the cache, \<open>getCompletions\<close> returns \<open>null\<close>.
\<close>

theorem outside_generated_null:
  assumes "\<not> isInGenerated (tsDocOf lib document) position"
    and "\<not> servedFromCache lib this document position ctx"
  shows "fst (getCompletions lib cfg this document position ctx cancel) = None"
  using assms by (rule getCompletions_outside_generated)

theorem outside_generated_null_witness:
  "\<not> isInGenerated (tsDocOf (tagLib 7) (sampleDocument ''<Comp on />'')) (pos 0 8)
   \<and> \<not> servedFromCache (tagLib 7) (tagState 7) (sampleDocument ''<Comp on />'') (pos 0 8)
         (request Invoked None)
   \<and> fst (getCompletions (tagLib 7) sampleConfig (tagState 7) (sampleDocument ''<Comp on />'')
            (pos 0 8) (request Invoked None) noCancellation) = None"
proof -
  have h1: "\<not> isInGenerated (tsDocOf (tagLib 7) (sampleDocument ''<Comp on />'')) (pos 0 8)"
    by (simp add: sample_defs tsDocOf_def)
  have h2: "\<not> servedFromCache (tagLib 7) (tagState 7) (sampleDocument ''<Comp on />'') (pos 0 8)
         (request Invoked None)"
    by (simp add: servedFromCache_def canReuseLastCompletion_def trigger_defs sample_defs)
  from h1 h2 outside_generated_null [OF h1 h2, of sampleConfig noCancellation]
  show ?thesis by simp
qed

section \<open>The trigger character for event and slot-let bindings\<close>

text \<open>
  The claim that every request with the trigger character \<open>:\<close> is answered with exactly
  the event and slot-let completions fails for a request served from the cache. The
  first request computes a list that holds the engine's entry \<open>foo\<close>; after \<open>n:\<close> is
  typed, the request with the trigger character \<open>:\<close>, two columns further in the start
  tag, is answered with that list, while the event and slot-let completions at its
  position are \<open>on:click\<close> and \<open>on:change\<close> alone.
\<close>

theorem colon_trigger_cache_counterexample:
  "getCompletions (tagLib 20) sampleConfig emptyState (sampleDocument ''<Comp o />'') (pos 0 7)
     (request Invoked None) noCancellation = (Some tagList, tagState 7)
   \<and> fst (getCompletions (tagLib 20) sampleConfig (tagState 7) (sampleDocument ''<Comp on: />'')
            (pos 0 9) (request TriggerCharacter (Some '':'')) noCancellation)
      = Some tagList
   \<and> map label (items tagList) = [''foo'', ''on:click'', ''on:change'']
   \<and> map label (metadataCompletions (tagLib 20) (sampleDocument ''<Comp on: />'') (pos 0 9))
      = [''on:click'', ''on:change'']"
proof -
  have first: "getCompletions (tagLib 20) sampleConfig emptyState (sampleDocument ''<Comp o />'')
      (pos 0 7) (request Invoked None) noCancellation = (Some tagList, tagState 7)"
    by (simp add: tag_first_request)
  have reuse: "canReuseLastCompletion (tagLib 20) (Some (cachedAt 7))
      (triggerKindOf (request TriggerCharacter (Some '':'')))
      (triggerCharacterOf (request TriggerCharacter (Some '':'')))
      (sampleDocument ''<Comp on: />'') (pos 0 9)"
    by (simp add: canReuseLastCompletion_def trigger_defs sample_defs)
  have second: "fst (getCompletions (tagLib 20) sampleConfig (tagState 7)
      (sampleDocument ''<Comp on: />'') (pos 0 9)
      (request TriggerCharacter (Some '':'')) noCancellation) = Some tagList"
    by (subst getCompletions_hit [OF _ _ _ reuse])
       (simp_all add: sample_defs tsDocOf_def)
  have labels: "map label (items tagList) = [''foo'', ''on:click'', ''on:change'']"
    by (simp add: tagList_def eventItem_def plainItem_def)
  have meta: "map label (metadataCompletions (tagLib 20) (sampleDocument ''<Comp on: />'') (pos 0 9))
      = [''on:click'', ''on:change'']"
    by (simp add: stage_defs getEventAndSlotLetCompletions_def componentInfoToCompletionEntry_def
        sample_defs Let_def)
  from first second labels meta show ?thesis by simp
qed

text \<open>
  C2 (as amended). For every request with the trigger character \<open>:\<close> that gets to the
  computation of the event and slot-let completions (the cursor is not in the style block,
  the snapshot has a file path, the request is not served from the cache, the position is
  in the generated region and not in plain text, the request is not cancelled),
  \<open>getCompletions\<close> returns exactly the event and slot-let completions and records no
  engine query; the list is marked incomplete if and only if the document has a parser
  error. For a component, outside an attribute value, these are one item per declared
  event, labelled \<open>on:\<close> and its name, followed by one per declared slot-let, labelled
  \<open>let:\<close> and its name; without a component or in an attribute value there is none.
\<close>

theorem colon_trigger_metadata_only:
  assumes "triggerCharacterOf ctx = Some '':''"
    and "reachesMetadataStage lib this document position ctx cancel"
  shows "getCompletions lib cfg this document position ctx cancel
           = (Some \<lparr> items = metadataCompletions lib document position,
                     isIncomplete = (parserError (tsDocOf lib document) \<noteq> None) \<rparr>,
              this \<lparr> lastCompletion := None \<rparr>)
         \<and> engineQueries (snd (getCompletions lib cfg this document position ctx cancel))
             = engineQueries this
         \<and> (\<forall>ci. componentInfoAt lib document position = Some ci
                  \<longrightarrow> \<not> inAttributeValue lib document position
                  \<longrightarrow> map label (metadataCompletions lib document position)
                        = map (\<lambda>e. ''on:'' @ info_name e) (getEvents ci)
                          @ map (\<lambda>s. ''let:'' @ info_name s) (getSlotLets ci))
         \<and> (componentInfoAt lib document position = None \<or> inAttributeValue lib document position
              \<longrightarrow> metadataCompletions lib document position = [])"
proof -
  from getCompletions_metadata_only [OF assms(2,1)]
  have "getCompletions lib cfg this document position ctx cancel
           = (Some \<lparr> items = metadataCompletions lib document position,
                     isIncomplete = (parserError (tsDocOf lib document) \<noteq> None) \<rparr>,
              this \<lparr> lastCompletion := None \<rparr>)"
    by (simp add: CompletionList_create_def)
  then show ?thesis
    by (simp add: metadataCompletions_labels metadataCompletions_none)
qed

theorem colon_trigger_metadata_only_witness:
  "triggerCharacterOf (request TriggerCharacter (Some '':'')) = Some '':''
   \<and> reachesMetadataStage (tagLib 20) emptyState (sampleDocument ''<Comp on: />'') (pos 0 9)
        (request TriggerCharacter (Some '':'')) noCancellation
   \<and> componentInfoAt (tagLib 20) (sampleDocument ''<Comp on: />'') (pos 0 9) = Some sampleComponent
   \<and> \<not> inAttributeValue (tagLib 20) (sampleDocument ''<Comp on: />'') (pos 0 9)
   \<and> getCompletions (tagLib 20) sampleConfig emptyState (sampleDocument ''<Comp on: />'') (pos 0 9)
        (request TriggerCharacter (Some '':'')) noCancellation
      = (Some \<lparr> items = [eventItem ''on:click'' ''click: MouseEvent'',
                         eventItem ''on:change'' ''change: Event''],
                isIncomplete = False \<rparr>,
         emptyState)
   \<and> map label (metadataCompletions (tagLib 20) (sampleDocument ''<Comp on: />'') (pos 0 9))
      = [''on:click'', ''on:change'']"
proof -
  have h1: "triggerCharacterOf (request TriggerCharacter (Some '':'')) = Some '':''"
    by (simp add: trigger_defs request_def)
  have h2: "reachesMetadataStage (tagLib 20) emptyState (sampleDocument ''<Comp on: />'') (pos 0 9)
        (request TriggerCharacter (Some '':'')) noCancellation"
    by (simp add: stage_defs trigger_defs canReuseLastCompletion_def isValidTriggerCharacter_def
        validTriggerCharacters_def substring_def clampIndex_def sample_defs Let_def)
  have h3: "componentInfoAt (tagLib 20) (sampleDocument ''<Comp on: />'') (pos 0 9)
      = Some sampleComponent"
    by (simp add: stage_defs sample_defs)
  have h4: "\<not> inAttributeValue (tagLib 20) (sampleDocument ''<Comp on: />'') (pos 0 9)"
    by (simp add: stage_defs sample_defs)
  have m: "metadataCompletions (tagLib 20) (sampleDocument ''<Comp on: />'') (pos 0 9)
      = [eventItem ''on:click'' ''click: MouseEvent'', eventItem ''on:change'' ''change: Event'']"
    by (simp add: stage_defs getEventAndSlotLetCompletions_def componentInfoToCompletionEntry_def
        sample_defs Let_def)
  have ml: "map label (metadataCompletions (tagLib 20) (sampleDocument ''<Comp on: />'') (pos 0 9))
      = [''on:click'', ''on:change'']"
    by (simp add: m eventItem_def plainItem_def)
  have pe: "parserError (tsDocOf (tagLib 20) (sampleDocument ''<Comp on: />'')) = None"
    by (simp add: sample_defs tsDocOf_def)
  have st: "emptyState \<lparr> lastCompletion := None \<rparr> = emptyState"
    by (simp add: emptyState_def)
  from colon_trigger_metadata_only [OF h1 h2, of sampleConfig, THEN conjunct1]
  have "getCompletions (tagLib 20) sampleConfig emptyState (sampleDocument ''<Comp on: />'') (pos 0 9)
        (request TriggerCharacter (Some '':'')) noCancellation
      = (Some \<lparr> items = [eventItem ''on:click'' ''click: MouseEvent'',
                         eventItem ''on:change'' ''change: Event''],
                isIncomplete = False \<rparr>,
         emptyState)"
    by (simp add: m pe st)
  with h1 h2 h3 h4 ml show ?thesis by simp
qed

section \<open>Empty and oversized answers of the engine\<close>

text \<open>
  The claim that a request for which the engine query and the event and slot-let
  completions both give nothing is answered with \<open>null\<close> or an empty incomplete list
  fails where the string-literal fallback steps in. In the quoted value of the attribute
  \<open>size\<close> of a component, under the old transformation, the engine gives no entry and
  there are no event or slot-let completions (the cursor is in an attribute value), the
  document has no parser error, and the answer is a list with the item \<open>large\<close> taken
  from the component's declared prop.
\<close>

theorem nothing_found_fallback_counterexample:
  "reachesEngineQuery valueLib emptyState valueDocument (pos 0 12) (request Invoked None) noCancellation
   \<and> engineEntries valueLib valueDocument (pos 0 12) (request Invoked None) = []
   \<and> metadataCompletions valueLib valueDocument (pos 0 12) = []
   \<and> parserError (tsDocOf valueLib valueDocument) = None
   \<and> map_option (\<lambda>l. map label (items l))
         (fst (getCompletions valueLib sampleConfig emptyState valueDocument (pos 0 12)
                 (request Invoked None) noCancellation))
      = Some [''large'']"
proof -
  have a: "reachesEngineQuery valueLib emptyState valueDocument (pos 0 12) (request Invoked None)
      noCancellation"
    by (simp add: stage_defs trigger_defs canReuseLastCompletion_def substring_def clampIndex_def
        sample_defs Let_def)
  have b: "engineEntries valueLib valueDocument (pos 0 12) (request Invoked None) = []"
    by (simp add: stage_defs sample_defs)
  have c: "metadataCompletions valueLib valueDocument (pos 0 12) = []"
    by (simp add: stage_defs getEventAndSlotLetCompletions_def sample_defs)
  have d: "parserError (tsDocOf valueLib valueDocument) = None"
    by (simp add: tsDocOf_def sample_defs)
  have e: "map_option (\<lambda>l. map label (items l))
         (fst (getCompletions valueLib sampleConfig emptyState valueDocument (pos 0 12)
                 (request Invoked None) noCancellation))
      = Some [''large'']"
    by (simp add: provider_defs sample_defs Let_def)
  from a b c d e show ?thesis by simp
qed

text \<open>
  C9 (as amended). When the engine query, the string-literal fallback that follows an
  empty answer, and the event and slot-let completions all give nothing,
  \<open>getCompletions\<close> returns an empty list marked incomplete if the document has a
  parser error and \<open>null\<close> otherwise. The result is a value in both cases: the model has
  no other outcome.
\<close>

theorem nothing_found_result:
  assumes "reachesEngineQuery lib this document position ctx cancel"
    and "engineEntries lib document position ctx = []"
    and "fallbackEntries lib cfg document position = []"
    and "metadataCompletions lib document position = []"
  shows "fst (getCompletions lib cfg this document position ctx cancel)
           = (if parserError (tsDocOf lib document) \<noteq> None
              then Some \<lparr> items = [], isIncomplete = True \<rparr>
              else None)"
  using getCompletions_nothing_found [OF assms]
  by (simp add: CompletionList_create_def)

theorem nothing_found_result_witness:
  "reachesEngineQuery (emptyLib (Some ''Unexpected token'')) emptyState (sampleDocument ''<div  />'')
     (pos 0 5) (request Invoked None) noCancellation
   \<and> engineEntries (emptyLib (Some ''Unexpected token'')) (sampleDocument ''<div  />'') (pos 0 5)
        (request Invoked None) = []
   \<and> fallbackEntries (emptyLib (Some ''Unexpected token'')) sampleConfig (sampleDocument ''<div  />'')
        (pos 0 5) = []
   \<and> metadataCompletions (emptyLib (Some ''Unexpected token'')) (sampleDocument ''<div  />'') (pos 0 5)
      = []
   \<and> fst (getCompletions (emptyLib (Some ''Unexpected token'')) sampleConfig emptyState
            (sampleDocument ''<div  />'') (pos 0 5) (request Invoked None) noCancellation)
      = Some \<lparr> items = [], isIncomplete = True \<rparr>
   \<and> reachesEngineQuery (emptyLib None) emptyState (sampleDocument ''<div  />'')
        (pos 0 5) (request Invoked None) noCancellation
   \<and> fst (getCompletions (emptyLib None) sampleConfig emptyState
            (sampleDocument ''<div  />'') (pos 0 5) (request Invoked None) noCancellation)
      = None"
proof -
  have a: "reachesEngineQuery (emptyLib err) emptyState (sampleDocument ''<div  />'')
     (pos 0 5) (request Invoked None) noCancellation" for err
    by (simp add: stage_defs trigger_defs canReuseLastCompletion_def substring_def clampIndex_def
        sample_defs Let_def)
  have b: "engineEntries (emptyLib err) (sampleDocument ''<div  />'') (pos 0 5)
        (request Invoked None) = []" for err
    by (simp add: stage_defs sample_defs)
  have c: "fallbackEntries (emptyLib err) sampleConfig (sampleDocument ''<div  />'') (pos 0 5) = []"
    for err
    by (simp add: stage_defs jsxTransformationPropStringLiteralCompletion_def sample_defs)
  have d: "metadataCompletions (emptyLib err) (sampleDocument ''<div  />'') (pos 0 5) = []" for err
    by (simp add: stage_defs getEventAndSlotLetCompletions_def sample_defs)
  have pe: "parserError (tsDocOf (emptyLib err) (sampleDocument ''<div  />'')) = err" for err
    by (simp add: tsDocOf_def sample_defs)
  from nothing_found_result [OF a b c d, of "Some ''Unexpected token''"]
  have r1: "fst (getCompletions (emptyLib (Some ''Unexpected token'')) sampleConfig emptyState
            (sampleDocument ''<div  />'') (pos 0 5) (request Invoked None) noCancellation)
      = Some \<lparr> items = [], isIncomplete = True \<rparr>"
    by (simp add: pe)
  from nothing_found_result [OF a b c d, of None]
  have r2: "fst (getCompletions (emptyLib None) sampleConfig emptyState
            (sampleDocument ''<div  />'') (pos 0 5) (request Invoked None) noCancellation)
      = None"
    by (simp add: pe)
  from a b c d r1 r2 show ?thesis by simp
qed

text \<open>
  C5. When the engine answers with more than 500 entries: if the node at the cursor is
  an element and the first entry is not of the member-variable kind, \<open>getCompletions\<close>
  returns \<open>null\<close>; if the node is a component and the two characters around the cursor
  are two blanks, a blank and \<open>>\<close>, or a blank and \<open>/\<close>, it returns the event and
  slot-let completions already computed followed by the declared-prop completions, and
  none of the engine's entries. The prop completions are one per declared prop of the
  component, labelled with its name, and there is none in an attribute value.
\<close>

theorem engine_cap_over_500:
  assumes "reachesEngineQuery lib this document position ctx cancel"
    and "length (engineEntries lib document position ctx) > 500"
  shows "(map_option node_type (svelteNodeAt (tsDocOf lib document) (offsetAt document position))
            = Some ''Element''
          \<and> ce_kind (hd (engineEntries lib document position ctx)) \<noteq> memberVariableElement
          \<longrightarrow> fst (getCompletions lib cfg this document position ctx cancel) = None)
       \<and> (map_option node_type (svelteNodeAt (tsDocOf lib document) (offsetAt document position))
            = Some ''InlineComponent''
          \<and> substring (getText document) (offsetAt document position - 1)
                (offsetAt document position + 1) \<in> set [''  '', '' >'', '' /'']
          \<longrightarrow> fst (getCompletions lib cfg this document position ctx cancel)
                = Some \<lparr> items = metadataCompletions lib document position
                                   @ propCompletions lib document position,
                          isIncomplete = (parserError (tsDocOf lib document) \<noteq> None) \<rparr>)
       \<and> (\<forall>ci. componentInfoAt lib document position = Some ci
                \<longrightarrow> \<not> inAttributeValue lib document position
                \<longrightarrow> map label (propCompletions lib document position) = map info_name (getProps ci))
       \<and> (inAttributeValue lib document position \<longrightarrow> propCompletions lib document position = [])"
proof (intro conjI impI allI)
  assume "map_option node_type (svelteNodeAt (tsDocOf lib document) (offsetAt document position))
            = Some ''Element''
          \<and> ce_kind (hd (engineEntries lib document position ctx)) \<noteq> memberVariableElement"
  then show "fst (getCompletions lib cfg this document position ctx cancel) = None"
    using getCompletions_discard [OF assms] by simp
next
  assume "map_option node_type (svelteNodeAt (tsDocOf lib document) (offsetAt document position))
            = Some ''InlineComponent''
          \<and> substring (getText document) (offsetAt document position - 1)
                (offsetAt document position + 1) \<in> set [''  '', '' >'', '' /'']"
  then show "fst (getCompletions lib cfg this document position ctx cancel)
                = Some \<lparr> items = metadataCompletions lib document position
                                   @ propCompletions lib document position,
                          isIncomplete = (parserError (tsDocOf lib document) \<noteq> None) \<rparr>"
    using getCompletions_narrow [OF assms] by (simp add: CompletionList_create_def)
next
  fix ci
  assume "componentInfoAt lib document position = Some ci"
    and "\<not> inAttributeValue lib document position"
  then show "map label (propCompletions lib document position) = map info_name (getProps ci)"
    by (simp add: propCompletions_def componentInfoToCompletionEntry_def Let_def comp_def)
next
  assume "inAttributeValue lib document position"
  then show "propCompletions lib document position = []"
    by (simp add: propCompletions_def)
qed

theorem engine_cap_over_500_witness:
  "reachesEngineQuery (globalsLib ''Element'') emptyState (sampleDocument ''<div  />'') (pos 0 5)
     (request Invoked None) noCancellation
   \<and> length (engineEntries (globalsLib ''Element'') (sampleDocument ''<div  />'') (pos 0 5)
               (request Invoked None)) = 501
   \<and> ce_kind (hd (engineEntries (globalsLib ''Element'') (sampleDocument ''<div  />'') (pos 0 5)
                    (request Invoked None))) \<noteq> memberVariableElement
   \<and> fst (getCompletions (globalsLib ''Element'') sampleConfig emptyState
            (sampleDocument ''<div  />'') (pos 0 5) (request Invoked None) noCancellation) = None
   \<and> reachesEngineQuery (globalsLib ''InlineComponent'') emptyState (sampleDocument ''<Comp  />'')
        (pos 0 6) (request Invoked None) noCancellation
   \<and> substring (getText (sampleDocument ''<Comp  />'')) (6 - 1) (6 + 1) = ''  ''
   \<and> fst (getCompletions (globalsLib ''InlineComponent'') sampleConfig emptyState
            (sampleDocument ''<Comp  />'') (pos 0 6) (request Invoked None) noCancellation)
      = Some \<lparr> items = [eventItem ''on:click'' ''click: MouseEvent'',
                        eventItem ''on:change'' ''change: Event'',
                        (eventItem ''title'' ''title: string'') \<lparr> kind := Some 5 \<rparr>],
               isIncomplete = False \<rparr>"
proof -
  have a: "reachesEngineQuery (globalsLib t) emptyState (sampleDocument d) (pos 0 c)
     (request Invoked None) noCancellation"
    if "c \<le> 20" and "t \<noteq> ''Text''" and "substring d (c - 1) (c + 2) \<noteq> ''></''" for t d c
    using that
    by (simp add: stage_defs trigger_defs canReuseLastCompletion_def sample_defs Let_def)
  have e: "engineEntries (globalsLib t) (sampleDocument d) (pos 0 c) (request Invoked None)
      = replicate 501 (sampleEntry ''g'' (otherElementKind ''var''))" for t d c
    by (simp add: stage_defs sample_defs)
  have a1: "reachesEngineQuery (globalsLib ''Element'') emptyState (sampleDocument ''<div  />'')
      (pos 0 5) (request Invoked None) noCancellation"
    by (rule a) (simp_all add: substring_def clampIndex_def Let_def)
  have a2: "reachesEngineQuery (globalsLib ''InlineComponent'') emptyState
      (sampleDocument ''<Comp  />'') (pos 0 6) (request Invoked None) noCancellation"
    by (rule a) (simp_all add: substring_def clampIndex_def Let_def)
  have len: "length (engineEntries (globalsLib t) (sampleDocument d) (pos 0 c)
      (request Invoked None)) > 500" for t d c
    by (simp add: e)
  have k: "ce_kind (hd (engineEntries (globalsLib t) (sampleDocument d) (pos 0 c)
      (request Invoked None))) \<noteq> memberVariableElement" for t d c
    by (simp add: e sampleEntry_def)
  have n1: "map_option node_type (svelteNodeAt (tsDocOf (globalsLib t) (sampleDocument d))
      (offsetAt (sampleDocument d) (pos 0 c))) = Some t" for t d c
    by (simp add: tsDocOf_def sample_defs)
  have s: "substring (getText (sampleDocument ''<Comp  />'')) (6 - 1) (6 + 1) = ''  ''"
    by (simp add: substring_def clampIndex_def sample_defs Let_def)
  have s': "substring (getText (sampleDocument ''<Comp  />''))
      (offsetAt (sampleDocument ''<Comp  />'') (pos 0 6) - 1)
      (offsetAt (sampleDocument ''<Comp  />'') (pos 0 6) + 1) \<in> set [''  '', '' >'', '' /'']"
    by (simp add: substring_def clampIndex_def sample_defs Let_def)
  have m: "metadataCompletions (globalsLib ''InlineComponent'') (sampleDocument ''<Comp  />'') (pos 0 6)
      = [eventItem ''on:click'' ''click: MouseEvent'', eventItem ''on:change'' ''change: Event'']"
    by (simp add: stage_defs getEventAndSlotLetCompletions_def componentInfoToCompletionEntry_def
        sample_defs Let_def)
  have p: "propCompletions (globalsLib ''InlineComponent'') (sampleDocument ''<Comp  />'') (pos 0 6)
      = [(eventItem ''title'' ''title: string'') \<lparr> kind := Some 5 \<rparr>]"
    by (simp add: stage_defs componentInfoToCompletionEntry_def CompletionItemKind_Field_def
        sample_defs Let_def)
  have pe: "parserError (tsDocOf (globalsLib t) (sampleDocument d)) = None" for t d
    by (simp add: tsDocOf_def sample_defs)
  from engine_cap_over_500
    [OF a1 len, of sampleConfig, THEN conjunct1, rule_format, OF conjI [OF n1 k]]
  have r1: "fst (getCompletions (globalsLib ''Element'') sampleConfig emptyState
            (sampleDocument ''<div  />'') (pos 0 5) (request Invoked None) noCancellation) = None"
    by simp
  from engine_cap_over_500
    [OF a2 len, of sampleConfig, THEN conjunct2, THEN conjunct1, rule_format, OF conjI [OF n1 s']]
  have r2: "fst (getCompletions (globalsLib ''InlineComponent'') sampleConfig emptyState
            (sampleDocument ''<Comp  />'') (pos 0 6) (request Invoked None) noCancellation)
      = Some \<lparr> items = [eventItem ''on:click'' ''click: MouseEvent'',
                        eventItem ''on:change'' ''change: Event'',
                        (eventItem ''title'' ''title: string'') \<lparr> kind := Some 5 \<rparr>],
               isIncomplete = False \<rparr>"
    by (simp add: m p pe)
  have l: "length (engineEntries (globalsLib ''Element'') (sampleDocument ''<div  />'') (pos 0 5)
               (request Invoked None)) = 501"
    by (simp add: e)
  from a1 l k r1 a2 s r2 show ?thesis by simp
qed

section \<open>Component placeholders that are already imported\<close>

lemma filterNotNull_append: "filterNotNull (xs @ ys) = filterNotNull xs @ filterNotNull ys"
  by (induction xs rule: filterNotNull.induct) simp_all

text \<open>
  The claim that a placeholder entry whose rewritten name is imported is always dropped
  fails for an entry of the script-element kind that carries a kind modifier: the import
  set is searched for the label, and the label of such an entry is the rewritten name
  with the modifier appended. Here the rewritten name \<open>Foo\<close> is imported, the label is
  \<open>Foo.ts\<close>, and the entry is turned into an item.
\<close>

theorem existing_import_label_counterexample:
  "isSvelteComponentImport (ce_name (placeholderEntry scriptElement (Some ''.ts'')))
   \<and> changeSvelteComponentName importLib (ce_name (placeholderEntry scriptElement (Some ''.ts'')))
      = ''Foo''
   \<and> ''Foo'' \<in> getExistingImports importLib (sampleDocument ''import { Foo, Bar } from x'')
   \<and> map_option label
         (toCompletionItem importLib (sampleSnapshot 20 ''Element'' None)
            (placeholderEntry scriptElement (Some ''.ts'')) ''file:///App.svelte'' (pos 0 3)
            (getExistingImports importLib (sampleDocument ''import { Foo, Bar } from x'')))
      = Some ''Foo.ts''"
  by (simp add: toCompletionItem_def getCompletionLabelAndInsert_def isSvelteComponentImport_def
      isExistingSvelteComponentImport_def getExistingImports_def trim_def isWhiteSpace_def
      endsWith_def sample_defs Let_def)

text \<open>
  C6 (as amended). For every engine entry whose name carries the placeholder suffix,
  unless it is a script-element entry with a kind modifier that is not already a suffix of
  the rewritten name, if the rewritten name is in the set of the document's imported names,
  \<open>toCompletionItem\<close> returns \<open>null\<close> for the entry, and the entry adds no item to
  the list that the non-null results make up.
\<close>

theorem existing_import_suppressed:
  assumes "isSvelteComponentImport (ce_name entry)"
    and "changeSvelteComponentName lib (ce_name entry) \<in> existingImports"
    and "\<not> (ce_kind entry = scriptElement
             \<and> (\<exists>m. kindModifiers entry = Some m \<and> m \<noteq> []
                      \<and> \<not> endsWith (changeSvelteComponentName lib (ce_name entry)) m))"
  shows "toCompletionItem lib snapshot entry docUri position existingImports = None
         \<and> filterNotNull
              (map (\<lambda>e. toCompletionItem lib snapshot e docUri position existingImports)
                 (before @ entry # after))
            = filterNotNull
                (map (\<lambda>e. toCompletionItem lib snapshot e docUri position existingImports)
                   (before @ after))"
proof -
  have none: "toCompletionItem lib snapshot entry docUri position existingImports = None"
    using assms
    by (auto simp add: toCompletionItem_def getCompletionLabelAndInsert_def Let_def
        split: option.splits)
  then show ?thesis
    by (simp add: filterNotNull_append)
qed

theorem existing_import_suppressed_witness:
  "isSvelteComponentImport (ce_name (placeholderEntry (otherElementKind ''class'') None))
   \<and> changeSvelteComponentName importLib (ce_name (placeholderEntry (otherElementKind ''class'') None))
      \<in> getExistingImports importLib (sampleDocument ''import { Foo, Bar } from x'')
   \<and> getExistingImports importLib (sampleDocument ''import { Foo, Bar } from x'') = {''Foo'', ''Bar''}
   \<and> toCompletionItem importLib (sampleSnapshot 20 ''Element'' None)
        (placeholderEntry (otherElementKind ''class'') None) ''file:///App.svelte'' (pos 0 3)
        (getExistingImports importLib (sampleDocument ''import { Foo, Bar } from x''))
      = None"
proof -
  have h1: "isSvelteComponentImport (ce_name (placeholderEntry (otherElementKind ''class'') None))"
    by (simp add: isSvelteComponentImport_def endsWith_def sample_defs)
  have i: "getExistingImports importLib (sampleDocument ''import { Foo, Bar } from x'')
      = {''Foo'', ''Bar''}"
    by (simp add: getExistingImports_def trim_def isWhiteSpace_def sample_defs Let_def)
  have h2: "changeSvelteComponentName importLib
        (ce_name (placeholderEntry (otherElementKind ''class'') None))
      \<in> getExistingImports importLib (sampleDocument ''import { Foo, Bar } from x'')"
    by (simp add: i) (simp add: endsWith_def sample_defs)
  have h3: "\<not> (ce_kind (placeholderEntry (otherElementKind ''class'') None) = scriptElement
      \<and> (\<exists>m. kindModifiers (placeholderEntry (otherElementKind ''class'') None) = Some m
             \<and> m \<noteq> []
             \<and> \<not> endsWith (changeSvelteComponentName importLib
                     (ce_name (placeholderEntry (otherElementKind ''class'') None))) m))"
    by (simp add: sample_defs)
  from existing_import_suppressed [OF h1 h2 h3, THEN conjunct1] h1 h2 i
  show ?thesis by simp
qed

section \<open>A code action for a document without a script region\<close>



end
